theory Spec2Isabelle
  imports Complex_Main
begin

section \<open>zh\_scraper: the extinction query \<open>get_extinction\<close>\<close>

text \<open>
  The repository is one Python function, \<open>get_extinction\<close> in \<open>zh_scraper.py\<close>. It
  validates its five arguments, performs one HTTP GET, and scans the text of the reply
  for two labelled numbers.

  Conventions of the embedding.
  \<^item> Python values are dynamically typed; the arguments are values of \<open>pyval\<close>.
  \<^item> A Python \<open>float\<close> is \<open>pyfloat\<close>: a finite value, the two infinities or NaN. Finite
    values are exact reals: a decimal literal or a parsed decimal string denotes its
    decimal value, and the rounding to a 64-bit double is not modelled.
  \<^item> Text is an Isabelle \<open>string\<close>; a \<open>char\<close> stands for a code point below 256.
  \<^item> Every \<open>raise\<close> is a value \<open>Inl e\<close> of \<open>error + 'a\<close>.
  \<^item> The network and the HTML library are not part of the repository; they are the
    two fields of the record \<open>env\<close>. The requests sent are appended to a log that is
    passed through \<open>get_extinction\<close>.
\<close>

subsection \<open>Values and errors\<close>

datatype pyfloat = Fin real | PInf | NInf | NaN

datatype pyval = PyInt int | PyFloat pyfloat | PyBool bool | PyStr string | PyNone

datatype coord = RA | Dec

text \<open>
  The \<open>ValueError\<close>s that \<open>get_extinction\<close> raises itself are told apart by their
  message; the constructors carry the names the specification gives them:
  \<^item> \<open>InvalidCoordinateType RA\<close>: "RA must be in units of hours, and a float or integer ..." (line 39),
    \<open>InvalidCoordinateType Dec\<close>: "Dec must be in units of degrees, and a float or integer ..." (line 41);
  \<^item> \<open>CoordinateUnitMismatch\<close>: "RA must be in units of hours, not degrees ..." (lines 46, 55);
  \<^item> \<open>CoordinateOutOfRange RA\<close>: "For LMC/SMC, RA must be between ..." (lines 48, 57),
    \<open>CoordinateOutOfRange Dec\<close>: "For LMC/SMC, Dec must be between ..." (lines 50, 59);
  \<^item> \<open>InvalidGalaxy\<close>: "Galaxy must be 'LMC' or 'SMC'." (line 62);
  \<^item> \<open>InvalidRadius\<close>: "Radius must be greater than 0 and no more than 12 arcminutes." (line 65);
  \<^item> \<open>InvalidTeff\<close>: "teff must be 'all', 'cool', or 'hot'." (line 68);
  \<^item> \<open>NoStarsFound\<close>: "No stars found within the given radius. ..." (line 101).

  \<open>RequestFailed\<close> is an exception of the HTTP library (lines 77, 78). The others are
  Python's own: \<open>AttributeError\<close> (\<open>galaxy.upper()\<close> on a value that is not a string),
  \<open>TypeError\<close> (an order comparison of a number with a value that is not one),
  \<open>IndexError\<close> (a list index out of range) and \<open>FloatValueError\<close> (the \<open>ValueError\<close>
  of \<open>float()\<close> on a string that is not a number).
\<close>

datatype error =
    InvalidCoordinateType coord
  | CoordinateUnitMismatch
  | CoordinateOutOfRange coord
  | InvalidGalaxy
  | InvalidRadius
  | InvalidTeff
  | RequestFailed
  | NoStarsFound
  | AttributeError
  | TypeError
  | IndexError
  | FloatValueError

subsection \<open>Float comparison\<close>

text \<open>Python's \<open>a <= b\<close> and \<open>a < b\<close> on floats: every comparison with NaN is false.\<close>

fun fle :: "pyfloat \<Rightarrow> pyfloat \<Rightarrow> bool" where
  "fle NaN _ = False"
| "fle _ NaN = False"
| "fle (Fin a) (Fin b) = (a \<le> b)"
| "fle NInf _ = True"
| "fle _ PInf = True"
| "fle PInf _ = False"
| "fle _ NInf = False"

fun flt :: "pyfloat \<Rightarrow> pyfloat \<Rightarrow> bool" where
  "flt NaN _ = False"
| "flt _ NaN = False"
| "flt (Fin a) (Fin b) = (a < b)"
| "flt PInf _ = False"
| "flt _ NInf = False"
| "flt NInf _ = True"
| "flt _ PInf = True"

text \<open>
  The number a value denotes in an order comparison with a number: \<open>int\<close> and \<open>float\<close>
  compare by value (Python compares an \<open>int\<close> with a \<open>float\<close> exactly), \<open>bool\<close> is a
  subclass of \<open>int\<close>; a string or \<open>None\<close> has none, and the comparison raises
  \<open>TypeError\<close>.
\<close>

fun num_of :: "pyval \<Rightarrow> pyfloat option" where
  "num_of (PyInt i) = Some (Fin (of_int i))"
| "num_of (PyFloat f) = Some f"
| "num_of (PyBool b) = Some (Fin (if b then 1 else 0))"
| "num_of (PyStr _) = None"
| "num_of PyNone = None"

text \<open>\<open>type(v) in {float, int}\<close>: the exact type, so a \<open>bool\<close> does not pass.\<close>

fun is_float_or_int :: "pyval \<Rightarrow> bool" where
  "is_float_or_int (PyInt _) = True"
| "is_float_or_int (PyFloat _) = True"
| "is_float_or_int _ = False"

subsection \<open>String operations\<close>

definition is_lower :: "char \<Rightarrow> bool" where
  "is_lower c = (97 \<le> (of_char c :: nat) \<and> (of_char c :: nat) \<le> 122)"

definition is_upper :: "char \<Rightarrow> bool" where
  "is_upper c = (65 \<le> (of_char c :: nat) \<and> (of_char c :: nat) \<le> 90)"

definition upper_char :: "char \<Rightarrow> char" where
  "upper_char c = (if is_lower c then char_of ((of_char c :: nat) - 32) else c)"

definition lower_char :: "char \<Rightarrow> char" where
  "lower_char c = (if is_upper c then char_of ((of_char c :: nat) + 32) else c)"

text \<open>
  \<open>str.upper()\<close>. The letters \<open>a\<close> to \<open>z\<close> are mapped to \<open>A\<close> to \<open>Z\<close>; every other
  character is kept. (Below code point 256, Python's \<open>upper\<close> changes a character
  outside \<open>a\<close>..\<open>z\<close> only into text that is not ASCII or, for the sharp s, into \<open>SS\<close>;
  neither affects a comparison with \<open>LMC\<close> or \<open>SMC\<close>.)
\<close>

definition pyupper :: "string \<Rightarrow> string" where
  "pyupper s = map upper_char s"

definition pylower :: "string \<Rightarrow> string" where
  "pylower s = map lower_char s"

text \<open>\<open>str.isspace\<close> for one character, below code point 256.\<close>

definition is_space :: "char \<Rightarrow> bool" where
  "is_space c = ((of_char c :: nat) \<in> {9, 10, 11, 12, 13, 28, 29, 30, 31, 32, 133, 160})"

text \<open>The line boundaries of \<open>str.splitlines\<close>, below code point 256.\<close>

definition is_linebreak :: "char \<Rightarrow> bool" where
  "is_linebreak c = ((of_char c :: nat) \<in> {10, 11, 12, 13, 28, 29, 30, 133})"

definition is_digit :: "char \<Rightarrow> bool" where
  "is_digit c = (48 \<le> (of_char c :: nat) \<and> (of_char c :: nat) \<le> 57)"

text \<open>
  \<open>str.splitlines()\<close>: the text is cut at every line boundary, \<open>\\r\\n\<close> counting as
  one; a boundary at the very end opens no further line. \<open>cur\<close> holds the characters
  of the line being read, last first.
\<close>

fun splitlines_from :: "string \<Rightarrow> string \<Rightarrow> string list" where
  "splitlines_from cur [] = (if cur = [] then [] else [rev cur])"
| "splitlines_from cur [c] =
     (if is_linebreak c then [rev cur] else [rev (c # cur)])"
| "splitlines_from cur (c # d # s) =
     (if is_linebreak c then
        rev cur # (if c = CHR 0x0D \<and> d = CHR 0x0A then splitlines_from [] s
                   else splitlines_from [] (d # s))
      else splitlines_from (c # cur) (d # s))"

definition splitlines :: "string \<Rightarrow> string list" where
  "splitlines s = splitlines_from [] s"

text \<open>\<open>str.strip()\<close>: leading and trailing whitespace removed.\<close>

definition pystrip :: "string \<Rightarrow> string" where
  "pystrip s = rev (dropWhile is_space (rev (dropWhile is_space s)))"

text \<open>\<open>s.startswith(p)\<close> and \<open>sub in s\<close>.\<close>

fun startswith :: "string \<Rightarrow> string \<Rightarrow> bool" where
  "startswith s [] = True"
| "startswith [] (p # ps) = False"
| "startswith (c # s) (p # ps) = (c = p \<and> startswith s ps)"

fun pycontains :: "string \<Rightarrow> string \<Rightarrow> bool" where
  "pycontains sub [] = (sub = [])"
| "pycontains sub (c # s) = (startswith (c # s) sub \<or> pycontains sub s)"

text \<open>
  \<open>s.split(sep)\<close> for a separator of one character: the pieces between the
  separators, empty pieces kept; the result has at least one element.
\<close>

fun split_from :: "char \<Rightarrow> string \<Rightarrow> string \<Rightarrow> string list" where
  "split_from sep cur [] = [rev cur]"
| "split_from sep cur (c # s) =
     (if c = sep then rev cur # split_from sep [] s else split_from sep (c # cur) s)"

definition pysplit :: "char \<Rightarrow> string \<Rightarrow> string list" where
  "pysplit sep s = split_from sep [] s"

text \<open>\<open>s.split()\<close>: the maximal runs of characters that are not whitespace.\<close>

fun split_ws_from :: "string \<Rightarrow> string \<Rightarrow> string list" where
  "split_ws_from cur [] = (if cur = [] then [] else [rev cur])"
| "split_ws_from cur (c # s) =
     (if is_space c then
        (if cur = [] then split_ws_from [] s else rev cur # split_ws_from [] s)
      else split_ws_from (c # cur) s)"

definition pysplit_ws :: "string \<Rightarrow> string list" where
  "pysplit_ws s = split_ws_from [] s"

text \<open>\<open>xs[i]\<close> for \<open>i \<ge> 0\<close>: \<open>IndexError\<close> out of range.\<close>

fun pyindex :: "'a list \<Rightarrow> nat \<Rightarrow> error + 'a" where
  "pyindex [] i = Inl IndexError"
| "pyindex (x # xs) 0 = Inr x"
| "pyindex (x # xs) (Suc i) = pyindex xs i"

subsection \<open>\<open>float(str)\<close>\<close>

text \<open>
  Python's \<open>float\<close> on a string without surrounding whitespace accepts
  \<^verbatim>\<open>[sign] (digitpart ["." [digitpart]] | "." digitpart) [("e"|"E") [sign] digitpart]\<close>
  and \<^verbatim>\<open>[sign] ("inf" | "infinity" | "nan")\<close> in any case, where a digitpart is
  digits with single underscores allowed between two digits.
\<close>

text \<open>
  Underscores: each must have a digit before it and a digit after it; they are then
  dropped. \<open>prev\<close> is the character before, if any.
\<close>

fun drop_underscores :: "char option \<Rightarrow> string \<Rightarrow> string option" where
  "drop_underscores prev [] = (if prev = Some CHR ''_'' then None else Some [])"
| "drop_underscores prev (c # s) =
     (if c = CHR ''_'' then
        (case prev of
           None \<Rightarrow> None
         | Some p \<Rightarrow> if is_digit p then drop_underscores (Some c) s else None)
      else if prev = Some CHR ''_'' \<and> \<not> is_digit c then None
      else map_option ((#) c) (drop_underscores (Some c) s))"

definition digit_val :: "char \<Rightarrow> nat" where
  "digit_val c = (of_char c :: nat) - 48"

definition digits_val :: "string \<Rightarrow> nat" where
  "digits_val ds = foldl (\<lambda>n c. 10 * n + digit_val c) 0 ds"

text \<open>\<open>m\<close> times ten to the power \<open>k\<close>.\<close>

definition scale10 :: "nat \<Rightarrow> int \<Rightarrow> real" where
  "scale10 m k = (if 0 \<le> k then of_nat m * 10 ^ nat k else of_nat m / 10 ^ nat (- k))"

text \<open>The exponent part: nothing, or \<open>e\<close>/\<open>E\<close>, an optional sign and at least one digit.\<close>

definition parse_exponent :: "string \<Rightarrow> int option" where
  "parse_exponent s =
     (case s of
        [] \<Rightarrow> Some 0
      | c # r \<Rightarrow>
          if c = CHR ''e'' \<or> c = CHR ''E'' then
            (let neg = (r \<noteq> [] \<and> hd r = CHR ''-'');
                 ds = (if r \<noteq> [] \<and> (hd r = CHR ''-'' \<or> hd r = CHR ''+'') then tl r else r)
             in if ds \<noteq> [] \<and> list_all is_digit ds
                then Some (if neg then - int (digits_val ds) else int (digits_val ds))
                else None)
          else None)"

definition parse_decimal :: "string \<Rightarrow> real option" where
  "parse_decimal s =
     (let ip = takeWhile is_digit s;
          r1 = dropWhile is_digit s;
          dot = (r1 \<noteq> [] \<and> hd r1 = CHR ''.'');
          fp = (if dot then takeWhile is_digit (tl r1) else []);
          r2 = (if dot then dropWhile is_digit (tl r1) else r1)
      in if ip = [] \<and> fp = [] then None
         else (case parse_exponent r2 of
                 None \<Rightarrow> None
               | Some e \<Rightarrow> Some (scale10 (digits_val (ip @ fp)) (e - int (length fp)))))"

definition parse_unsigned :: "string \<Rightarrow> pyfloat option" where
  "parse_unsigned s =
     (if pylower s = ''inf'' \<or> pylower s = ''infinity'' then Some PInf
      else if pylower s = ''nan'' then Some NaN
      else map_option Fin (parse_decimal s))"

fun fneg :: "pyfloat \<Rightarrow> pyfloat" where
  "fneg (Fin x) = Fin (- x)"
| "fneg PInf = NInf"
| "fneg NInf = PInf"
| "fneg NaN = NaN"

definition parse_signed :: "string \<Rightarrow> pyfloat option" where
  "parse_signed s =
     (case s of
        [] \<Rightarrow> None
      | c # r \<Rightarrow>
          if c = CHR ''-'' then map_option fneg (parse_unsigned r)
          else if c = CHR ''+'' then parse_unsigned r
          else parse_unsigned s)"

definition pyfloat_of_str :: "string \<Rightarrow> error + pyfloat" where
  "pyfloat_of_str s =
     (case drop_underscores None s of
        None \<Rightarrow> Inl FloatValueError
      | Some t \<Rightarrow>
          (case parse_signed t of None \<Rightarrow> Inl FloatValueError | Some v \<Rightarrow> Inr v))"

subsection \<open>The environment: HTTP and HTML\<close>

text \<open>
  \<open>requests.get(base_url, params=params)\<close> sends one GET request. Either it raises
  (no connection, timeout, ...) or it returns a response with a status code and a
  body; \<open>response.raise_for_status()\<close> raises for the status codes 400 to 599.
  \<open>BeautifulSoup(response.text, 'html.parser').get_text()\<close> turns the body into its
  text. What the server answers and how HTML is rendered to text are parameters.
\<close>

record request =
  url :: string
  params :: "(string \<times> pyval) list"

datatype reply = TransportError | HttpResponse nat string

record env =
  http_get :: "request \<Rightarrow> reply"
  get_text :: "string \<Rightarrow> string"

definition raise_for_status :: "nat \<Rightarrow> bool" where
  "raise_for_status status = (400 \<le> status \<and> status < 600)"

subsection \<open>Validation (lines 35 to 68)\<close>

text \<open>Order comparisons of an argument with numeric constants.\<close>

definition py_gt :: "pyval \<Rightarrow> pyfloat \<Rightarrow> error + bool" where
  \<comment> \<open>\<open>v > c\<close>\<close>
  "py_gt v c = (case num_of v of None \<Rightarrow> Inl TypeError | Some x \<Rightarrow> Inr (flt c x))"

definition py_le_le :: "pyfloat \<Rightarrow> pyval \<Rightarrow> pyfloat \<Rightarrow> error + bool" where
  \<comment> \<open>\<open>lo <= v <= hi\<close>\<close>
  "py_le_le lo v hi =
     (case num_of v of None \<Rightarrow> Inl TypeError | Some x \<Rightarrow> Inr (fle lo x \<and> fle x hi))"

definition py_lt_le :: "pyfloat \<Rightarrow> pyval \<Rightarrow> pyfloat \<Rightarrow> error + bool" where
  \<comment> \<open>\<open>lo < v <= hi\<close>\<close>
  "py_lt_le lo v hi =
     (case num_of v of None \<Rightarrow> Inl TypeError | Some x \<Rightarrow> Inr (flt lo x \<and> fle x hi))"

text \<open>
  \<open>if test: raise e\<close>, then \<open>rest\<close>; \<open>if not test: raise e\<close>, then \<open>rest\<close>. An error
  of the test itself is passed on.
\<close>

definition raise_if :: "error + bool \<Rightarrow> error \<Rightarrow> error + 'a \<Rightarrow> error + 'a" where
  "raise_if test e rest =
     (case test of Inl x \<Rightarrow> Inl x | Inr b \<Rightarrow> if b then Inl e else rest)"

definition raise_unless :: "error + bool \<Rightarrow> error \<Rightarrow> error + 'a \<Rightarrow> error + 'a" where
  "raise_unless test e rest =
     (case test of Inl x \<Rightarrow> Inl x | Inr b \<Rightarrow> if \<not> b then Inl e else rest)"

definition lmc_url :: string where
  "lmc_url = ''https://www.as.arizona.edu/~dennis/cgi-bin/lmcext.cgi''"

definition smc_url :: string where
  "smc_url = ''https://www.as.arizona.edu/~dennis/cgi-bin/smcext.cgi''"

text \<open>Lines 43 to 62; \<open>galaxy\<close> is the upper-cased name.\<close>

definition select_endpoint :: "string \<Rightarrow> pyval \<Rightarrow> pyval \<Rightarrow> error + string" where
  "select_endpoint galaxy ra dec =
     (if galaxy = ''LMC'' then
        raise_if (py_gt ra (Fin 7.0)) CoordinateUnitMismatch
       (raise_unless (py_le_le (Fin 4.48) ra (Fin 6.27)) (CoordinateOutOfRange RA)
       (raise_unless (py_le_le (Fin (- 72.5)) dec (Fin (- 65.2))) (CoordinateOutOfRange Dec)
       (Inr lmc_url)))
      else if galaxy = ''SMC'' then
        raise_if (py_gt ra (Fin 6.0)) CoordinateUnitMismatch
       (raise_unless (py_le_le (Fin 0.375) ra (Fin 1.375)) (CoordinateOutOfRange RA)
       (raise_unless (py_le_le (Fin (- 74.9)) dec (Fin (- 70.4))) (CoordinateOutOfRange Dec)
       (Inr smc_url)))
      else Inl InvalidGalaxy)"

text \<open>
  Lines 35 to 68: the result is the endpoint \<open>base_url\<close>, or the first error raised.
  \<open>teff not in {'all', 'cool', 'hot'}\<close> is an equality test against the three strings.
\<close>

definition validate :: "pyval \<Rightarrow> pyval \<Rightarrow> pyval \<Rightarrow> pyval \<Rightarrow> pyval \<Rightarrow> error + string" where
  "validate galaxy ra dec radius teff =
     (case galaxy of
        PyStr g \<Rightarrow>
          if \<not> is_float_or_int ra then Inl (InvalidCoordinateType RA)
          else if \<not> is_float_or_int dec then Inl (InvalidCoordinateType Dec)
          else
            (case select_endpoint (pyupper g) ra dec of
               Inl e \<Rightarrow> Inl e
             | Inr base_url \<Rightarrow>
                 raise_unless (py_lt_le (Fin 0) radius (Fin 12)) InvalidRadius
                   (if teff \<notin> {PyStr ''all'', PyStr ''cool'', PyStr ''hot''}
                    then Inl InvalidTeff
                    else Inr base_url))
      | _ \<Rightarrow> Inl AttributeError)"

subsection \<open>Parsing the reply (lines 80 to 101)\<close>

definition mean_marker :: string where
  "mean_marker = ''<Av> =''"

definition stdev_marker :: string where
  "stdev_marker = ''Standard deviation of extinction values =''"

text \<open>\<open>float(line.split('=')[1].split()[0])\<close>\<close>

definition extract_value :: "string \<Rightarrow> error + pyfloat" where
  "extract_value line =
     (case pyindex (pysplit CHR ''='' line) 1 of
        Inl e \<Rightarrow> Inl e
      | Inr seg \<Rightarrow>
          (case pyindex (pysplit_ws seg) 0 of
             Inl e \<Rightarrow> Inl e
           | Inr tok \<Rightarrow> pyfloat_of_str tok))"

text \<open>
  One turn of the loop on the pair \<open>(mean_av, stdev_av)\<close>. The \<open>try\<close> body raises
  nothing but \<open>IndexError\<close> and the \<open>ValueError\<close> of \<open>float\<close> (lemma
  \<open>extract_value_errors\<close>), both caught: the line is skipped and the pair is as before.
\<close>

definition scan_line ::
  "pyfloat option \<times> pyfloat option \<Rightarrow> string \<Rightarrow> pyfloat option \<times> pyfloat option" where
  "scan_line st raw =
     (let line = pystrip raw in
      if pycontains mean_marker line then
        (case extract_value line of Inr v \<Rightarrow> (Some v, snd st) | Inl e \<Rightarrow> st)
      else if pycontains stdev_marker line then
        (case extract_value line of Inr v \<Rightarrow> (fst st, Some v) | Inl e \<Rightarrow> st)
      else st)"

definition scan_lines :: "string list \<Rightarrow> pyfloat option \<times> pyfloat option" where
  "scan_lines ls = foldl scan_line (None, None) ls"

definition finish :: "pyfloat option \<times> pyfloat option \<Rightarrow> error + pyfloat \<times> pyfloat" where
  \<comment> \<open>lines 98 to 101\<close>
  "finish st =
     (case st of
        (Some m, Some s) \<Rightarrow> Inr (m, s)
      | _ \<Rightarrow> Inl NoStarsFound)"

definition parse_text :: "string \<Rightarrow> error + pyfloat \<times> pyfloat" where
  "parse_text txt = finish (scan_lines (splitlines txt))"

subsection \<open>\<open>get_extinction\<close>\<close>

text \<open>
  The whole function. \<open>trace\<close> is the list of requests sent so far; the result is
  what the call returns or raises, and the list afterwards. (The default
  \<open>teff='all'\<close> is the caller passing \<open>PyStr ''all''\<close>.)
\<close>

definition make_request :: "string \<Rightarrow> pyval \<Rightarrow> pyval \<Rightarrow> pyval \<Rightarrow> pyval \<Rightarrow> request" where
  \<comment> \<open>lines 70 to 75 and the arguments of \<open>requests.get\<close>\<close>
  "make_request base_url ra dec radius teff =
     \<lparr>url = base_url,
      params = [(''ra'', ra), (''dec'', dec), (''searchrad'', radius), (''teff'', teff)]\<rparr>"

definition get_extinction ::
  "env \<Rightarrow> pyval \<Rightarrow> pyval \<Rightarrow> pyval \<Rightarrow> pyval \<Rightarrow> pyval \<Rightarrow> request list
     \<Rightarrow> (error + pyfloat \<times> pyfloat) \<times> request list" where
  "get_extinction w galaxy ra dec radius teff trace =
     (case validate galaxy ra dec radius teff of
        Inl e \<Rightarrow> (Inl e, trace)
      | Inr base_url \<Rightarrow>
          (let req = make_request base_url ra dec radius teff;
               trace' = trace @ [req]
           in case http_get w req of
                TransportError \<Rightarrow> (Inl RequestFailed, trace')
              | HttpResponse status body \<Rightarrow>
                  if raise_for_status status then (Inl RequestFailed, trace')
                  else (parse_text (get_text w body), trace')))"

section \<open>Notions of the specification\<close>

text \<open>
  The definitions of this section follow the words of the specification, not the
  code; the theorems below relate the two.
\<close>

text \<open>Two strings are equal when case is ignored.\<close>

definition ci_equal :: "string \<Rightarrow> string \<Rightarrow> bool" where
  "ci_equal a b = (pylower a = pylower b)"

datatype galaxy = LMC | SMC

text \<open>The galaxy a string normalises to, if any.\<close>

definition normalize_galaxy :: "string \<Rightarrow> galaxy option" where
  "normalize_galaxy g =
     (if ci_equal g ''LMC'' then Some LMC
      else if ci_equal g ''SMC'' then Some SMC
      else None)"

text \<open>The table of coordinate bounds: right ascension in hours, declination in degrees.\<close>

fun ra_lo :: "galaxy \<Rightarrow> real" where
  "ra_lo LMC = 4.48" | "ra_lo SMC = 0.375"

fun ra_hi :: "galaxy \<Rightarrow> real" where
  "ra_hi LMC = 6.27" | "ra_hi SMC = 1.375"

fun dec_lo :: "galaxy \<Rightarrow> real" where
  "dec_lo LMC = - 72.5" | "dec_lo SMC = - 74.9"

fun dec_hi :: "galaxy \<Rightarrow> real" where
  "dec_hi LMC = - 65.2" | "dec_hi SMC = - 70.4"

definition ra_in_bounds :: "galaxy \<Rightarrow> pyfloat \<Rightarrow> bool" where
  "ra_in_bounds G x = (fle (Fin (ra_lo G)) x \<and> fle x (Fin (ra_hi G)))"

definition dec_in_bounds :: "galaxy \<Rightarrow> pyfloat \<Rightarrow> bool" where
  "dec_in_bounds G y = (fle (Fin (dec_lo G)) y \<and> fle y (Fin (dec_hi G)))"

definition in_bounds :: "galaxy \<Rightarrow> pyfloat \<Rightarrow> pyfloat \<Rightarrow> bool" where
  "in_bounds G x y = (ra_in_bounds G x \<and> dec_in_bounds G y)"

text \<open>A right ascension that is a degree-scale value: above 7.0 for LMC, above 6.0 for SMC.\<close>

fun unit_limit :: "galaxy \<Rightarrow> real" where
  "unit_limit LMC = 7.0" | "unit_limit SMC = 6.0"

definition unit_mismatch :: "galaxy \<Rightarrow> pyfloat \<Rightarrow> bool" where
  "unit_mismatch G x = flt (Fin (unit_limit G)) x"

text \<open>The fixed endpoint of each galaxy.\<close>

fun endpoint :: "galaxy \<Rightarrow> string" where
  "endpoint LMC = ''https://www.as.arizona.edu/~dennis/cgi-bin/lmcext.cgi''"
| "endpoint SMC = ''https://www.as.arizona.edu/~dennis/cgi-bin/smcext.cgi''"

text \<open>\<open>0 < radius \<le> 12\<close>, and the three temperature selections.\<close>

definition radius_ok :: "pyfloat \<Rightarrow> bool" where
  "radius_ok r = (flt (Fin 0) r \<and> fle r (Fin 12))"

definition teff_ok :: "pyval \<Rightarrow> bool" where
  "teff_ok t = (t = PyStr ''all'' \<or> t = PyStr ''cool'' \<or> t = PyStr ''hot'')"

text \<open>
  The eight validation checks, each on its own, and the errors of the violated ones
  in the order: ra is numeric, dec is numeric, galaxy is LMC or SMC, ra unit
  mismatch, ra bounds, dec bounds, radius range, teff membership. A check on the
  value of a coordinate is violated only by a number, and for a recognised galaxy.
\<close>

definition ra_mismatch_violated :: "string \<Rightarrow> pyval \<Rightarrow> bool" where
  "ra_mismatch_violated g ra =
     (case (normalize_galaxy g, num_of ra) of (Some G, Some x) \<Rightarrow> unit_mismatch G x | _ \<Rightarrow> False)"

definition ra_bounds_violated :: "string \<Rightarrow> pyval \<Rightarrow> bool" where
  "ra_bounds_violated g ra =
     (case (normalize_galaxy g, num_of ra) of (Some G, Some x) \<Rightarrow> \<not> ra_in_bounds G x | _ \<Rightarrow> False)"

definition dec_bounds_violated :: "string \<Rightarrow> pyval \<Rightarrow> bool" where
  "dec_bounds_violated g dec =
     (case (normalize_galaxy g, num_of dec) of (Some G, Some y) \<Rightarrow> \<not> dec_in_bounds G y | _ \<Rightarrow> False)"

definition violations :: "string \<Rightarrow> pyval \<Rightarrow> pyval \<Rightarrow> pyfloat \<Rightarrow> pyval \<Rightarrow> error list" where
  "violations g ra dec r teff =
     (if is_float_or_int ra then [] else [InvalidCoordinateType RA]) @
     (if is_float_or_int dec then [] else [InvalidCoordinateType Dec]) @
     (if normalize_galaxy g = None then [InvalidGalaxy] else []) @
     (if ra_mismatch_violated g ra then [CoordinateUnitMismatch] else []) @
     (if ra_bounds_violated g ra then [CoordinateOutOfRange RA] else []) @
     (if dec_bounds_violated g dec then [CoordinateOutOfRange Dec] else []) @
     (if radius_ok r then [] else [InvalidRadius]) @
     (if teff_ok teff then [] else [InvalidTeff])"

text \<open>
  The value a stripped line gives to the mean, and to the standard deviation, when
  the loop reaches it; and the last value that a list of lines gives.
\<close>

definition mean_hit :: "string \<Rightarrow> pyfloat option" where
  "mean_hit line =
     (if pycontains mean_marker line
      then (case extract_value line of Inr v \<Rightarrow> Some v | Inl e \<Rightarrow> None)
      else None)"

definition stdev_hit :: "string \<Rightarrow> pyfloat option" where
  "stdev_hit line =
     (if \<not> pycontains mean_marker line \<and> pycontains stdev_marker line
      then (case extract_value line of Inr v \<Rightarrow> Some v | Inl e \<Rightarrow> None)
      else None)"

fun last_some :: "('a \<Rightarrow> 'b option) \<Rightarrow> 'a list \<Rightarrow> 'b option" where
  "last_some f [] = None"
| "last_some f (x # xs) = (case last_some f xs of Some v \<Rightarrow> Some v | None \<Rightarrow> f x)"

text \<open>The lines the loop looks at: the lines of the text, each stripped.\<close>

definition lines_of :: "string \<Rightarrow> string list" where
  "lines_of txt = map pystrip (splitlines txt)"

text \<open>The first whitespace-delimited token of a text.\<close>

definition first_token :: "string \<Rightarrow> error + string" where
  "first_token s = pyindex (pysplit_ws s) 0"

text \<open>The text after the first \<open>=\<close> of a line, to the end of the line.\<close>

definition after_first_eq :: "string \<Rightarrow> string" where
  "after_first_eq line = drop 1 (dropWhile (\<lambda>c. c \<noteq> CHR ''='') line)"

text \<open>
  A stand-in for the service: every request is answered with status 200 and the given
  body, and the body is plain text (its text is the body itself).
\<close>

definition mock_env :: "string \<Rightarrow> env" where
  "mock_env body = \<lparr>http_get = (\<lambda>req. HttpResponse 200 body), get_text = (\<lambda>html. html)\<rparr>"

section \<open>Lemmas\<close>

subsection \<open>Case folding and the galaxy name\<close>

lemma of_char_upper:
  "(of_char (upper_char c) :: nat) =
     (if 97 \<le> (of_char c :: nat) \<and> (of_char c :: nat) \<le> 122 then of_char c - 32 else of_char c)"
proof -
  have "(of_char c :: nat) - 32 < 256"
    using nat_of_char_less_256 [of c] by (simp add: less_imp_diff_less)
  then show ?thesis by (simp add: upper_char_def is_lower_def)
qed

lemma of_char_lower:
  "(of_char (lower_char c) :: nat) =
     (if 65 \<le> (of_char c :: nat) \<and> (of_char c :: nat) \<le> 90 then of_char c + 32 else of_char c)"
  by (simp add: lower_char_def is_upper_def)

lemma case_fold_char: "upper_char c = upper_char d \<longleftrightarrow> lower_char c = lower_char d"
proof -
  define x where "x = (of_char c :: nat)"
  define y where "y = (of_char d :: nat)"
  have u: "(of_char (upper_char c) :: nat) = (if 97 \<le> x \<and> x \<le> 122 then x - 32 else x)"
          "(of_char (upper_char d) :: nat) = (if 97 \<le> y \<and> y \<le> 122 then y - 32 else y)"
    by (simp_all only: of_char_upper x_def y_def)
  have l: "(of_char (lower_char c) :: nat) = (if 65 \<le> x \<and> x \<le> 90 then x + 32 else x)"
          "(of_char (lower_char d) :: nat) = (if 65 \<le> y \<and> y \<le> 90 then y + 32 else y)"
    by (simp_all only: of_char_lower x_def y_def)
  have "(upper_char c = upper_char d) = ((of_char (upper_char c) :: nat) = of_char (upper_char d))"
    by simp
  also have "\<dots> = ((of_char (lower_char c) :: nat) = of_char (lower_char d))"
    unfolding u l by (simp split: if_splits) arith
  also have "\<dots> = (lower_char c = lower_char d)" by simp
  finally show ?thesis .
qed

lemma case_fold_string: "pyupper a = pyupper b \<longleftrightarrow> pylower a = pylower b"
  unfolding pyupper_def pylower_def
proof (induction a arbitrary: b)
  case Nil
  then show ?case by simp
next
  case (Cons x xs)
  then show ?case by (cases b) (auto simp: case_fold_char)
qed

lemma pyupper_LMC: "pyupper ''LMC'' = ''LMC''"
  by code_simp

lemma pyupper_SMC: "pyupper ''SMC'' = ''SMC''"
  by code_simp

lemma upper_is_LMC: "pyupper g = ''LMC'' \<longleftrightarrow> ci_equal g ''LMC''"
  using case_fold_string [of g "''LMC''"] by (simp only: pyupper_LMC ci_equal_def)

lemma upper_is_SMC: "pyupper g = ''SMC'' \<longleftrightarrow> ci_equal g ''SMC''"
  using case_fold_string [of g "''SMC''"] by (simp only: pyupper_SMC ci_equal_def)

lemma normalize_galaxy_LMC: "normalize_galaxy g = Some LMC \<longleftrightarrow> pyupper g = ''LMC''"
  by (simp add: normalize_galaxy_def upper_is_LMC upper_is_SMC)

lemma normalize_galaxy_SMC: "normalize_galaxy g = Some SMC \<longleftrightarrow> pyupper g = ''SMC''"
  using upper_is_LMC [of g] upper_is_SMC [of g] by (auto simp: normalize_galaxy_def)

lemma normalize_galaxy_None:
  "normalize_galaxy g = None \<longleftrightarrow> pyupper g \<noteq> ''LMC'' \<and> pyupper g \<noteq> ''SMC''"
  by (simp add: normalize_galaxy_def upper_is_LMC upper_is_SMC)

lemma is_float_or_int_num: "is_float_or_int v \<Longrightarrow> \<exists>x. num_of v = Some x"
  by (cases v) simp_all

lemma endpoint_urls: "endpoint LMC = lmc_url" "endpoint SMC = smc_url"
  by (simp_all add: lmc_url_def smc_url_def)

lemma select_endpoint_spec:
  assumes "num_of ra = Some x" and "num_of dec = Some y"
  shows "select_endpoint (pyupper g) ra dec =
     (case normalize_galaxy g of
        None \<Rightarrow> Inl InvalidGalaxy
      | Some G \<Rightarrow>
          if unit_mismatch G x then Inl CoordinateUnitMismatch
          else if \<not> ra_in_bounds G x then Inl (CoordinateOutOfRange RA)
          else if \<not> dec_in_bounds G y then Inl (CoordinateOutOfRange Dec)
          else Inr (endpoint G))"
proof (cases "normalize_galaxy g")
  case None
  then have "pyupper g \<noteq> ''LMC''" and "pyupper g \<noteq> ''SMC''"
    by (simp_all add: normalize_galaxy_None)
  with None show ?thesis
    by (simp add: select_endpoint_def)
next
  case (Some G)
  show ?thesis
  proof (cases G)
    case LMC
    with Some have "pyupper g = ''LMC''" by (simp add: normalize_galaxy_LMC)
    with Some LMC assms show ?thesis
      by (simp add: select_endpoint_def raise_if_def raise_unless_def py_gt_def py_le_le_def
          unit_mismatch_def ra_in_bounds_def dec_in_bounds_def lmc_url_def)
  next
    case SMC
    with Some have "pyupper g = ''SMC''" by (simp add: normalize_galaxy_SMC)
    with Some SMC assms show ?thesis
      by (simp add: select_endpoint_def raise_if_def raise_unless_def py_gt_def py_le_le_def
          unit_mismatch_def ra_in_bounds_def dec_in_bounds_def smc_url_def)
  qed
qed

lemma validate_spec:
  assumes "is_float_or_int ra" and "is_float_or_int dec" and "num_of radius = Some r"
  shows "validate (PyStr g) ra dec radius teff =
     (case select_endpoint (pyupper g) ra dec of
        Inl e \<Rightarrow> Inl e
      | Inr base_url \<Rightarrow>
          if \<not> radius_ok r then Inl InvalidRadius
          else if \<not> teff_ok teff then Inl InvalidTeff
          else Inr base_url)"
  using assms
  by (simp add: validate_def raise_unless_def py_lt_le_def radius_ok_def teff_ok_def
      split: sum.splits)

subsection \<open>The two halves of \<open>get_extinction\<close>\<close>

lemma validate_bad_galaxy:
  assumes "\<not> ci_equal g ''LMC''" and "\<not> ci_equal g ''SMC''"
    and "is_float_or_int ra" and "is_float_or_int dec"
  shows "validate (PyStr g) ra dec radius teff = Inl InvalidGalaxy"
  using assms by (simp add: validate_def select_endpoint_def upper_is_LMC upper_is_SMC)

lemma get_extinction_invalid:
  "validate galaxy ra dec radius teff = Inl e \<Longrightarrow>
   get_extinction w galaxy ra dec radius teff trace = (Inl e, trace)"
  by (simp add: get_extinction_def)

lemma parse_text_cases:
  "parse_text txt = Inl NoStarsFound \<or> (\<exists>m s. parse_text txt = Inr (m, s))"
  by (auto simp: parse_text_def finish_def split: prod.splits option.splits)

lemma get_extinction_trace:
  assumes "validate galaxy ra dec radius teff = Inr base_url"
  shows "snd (get_extinction w galaxy ra dec radius teff trace) =
           trace @ [make_request base_url ra dec radius teff]"
  using assms by (simp add: get_extinction_def Let_def split: reply.splits)

lemma get_extinction_outcomes:
  assumes "validate galaxy ra dec radius teff = Inr base_url"
  shows "fst (get_extinction w galaxy ra dec radius teff trace) = Inl RequestFailed
         \<or> fst (get_extinction w galaxy ra dec radius teff trace) = Inl NoStarsFound
         \<or> (\<exists>m s. fst (get_extinction w galaxy ra dec radius teff trace) = Inr (m, s))"
proof (cases "http_get w (make_request base_url ra dec radius teff)")
  case TransportError
  with assms show ?thesis by (simp add: get_extinction_def)
next
  case (HttpResponse status body)
  with assms parse_text_cases [of "get_text w body"] show ?thesis
    by (auto simp: get_extinction_def Let_def)
qed

lemma unit_mismatch_out_of_bounds: "unit_mismatch G x \<Longrightarrow> \<not> ra_in_bounds G x"
  by (cases G; cases x) (simp_all add: unit_mismatch_def ra_in_bounds_def)


subsection \<open>The scanning loop\<close>

lemma pyindex_errors: "pyindex xs i = Inl e \<Longrightarrow> e = IndexError"
  by (induction xs i rule: pyindex.induct) simp_all

lemma pyfloat_of_str_errors: "pyfloat_of_str s = Inl e \<Longrightarrow> e = FloatValueError"
  by (auto simp: pyfloat_of_str_def split: option.splits)

lemma extract_value_errors:
  "extract_value line = Inl e \<Longrightarrow> e = IndexError \<or> e = FloatValueError"
  by (auto simp: extract_value_def split: sum.splits
      dest: pyindex_errors pyfloat_of_str_errors)

lemma scan_line_hits:
  "scan_line st raw =
     (case mean_hit (pystrip raw) of
        Some v \<Rightarrow> (Some v, snd st)
      | None \<Rightarrow> (case stdev_hit (pystrip raw) of Some v \<Rightarrow> (fst st, Some v) | None \<Rightarrow> st))"
  by (simp add: scan_line_def mean_hit_def stdev_hit_def Let_def split: sum.splits)

lemma hits_exclusive: "stdev_hit l = Some u \<Longrightarrow> mean_hit l = None"
  by (simp add: stdev_hit_def mean_hit_def split: if_splits)

lemma foldl_scan_line:
  "foldl scan_line st raws =
     (case last_some mean_hit (map pystrip raws) of Some v \<Rightarrow> Some v | None \<Rightarrow> fst st,
      case last_some stdev_hit (map pystrip raws) of Some v \<Rightarrow> Some v | None \<Rightarrow> snd st)"
proof (induction raws arbitrary: st)
  case Nil
  then show ?case by simp
next
  case (Cons raw raws)
  have "foldl scan_line st (raw # raws) = foldl scan_line (scan_line st raw) raws"
    by simp
  also have "\<dots> =
     (case last_some mean_hit (map pystrip raws) of
        Some v \<Rightarrow> Some v | None \<Rightarrow> fst (scan_line st raw),
      case last_some stdev_hit (map pystrip raws) of
        Some v \<Rightarrow> Some v | None \<Rightarrow> snd (scan_line st raw))"
    by (rule Cons.IH)
  also have "\<dots> =
     (case last_some mean_hit (map pystrip (raw # raws)) of Some v \<Rightarrow> Some v | None \<Rightarrow> fst st,
      case last_some stdev_hit (map pystrip (raw # raws)) of Some v \<Rightarrow> Some v | None \<Rightarrow> snd st)"
    by (auto simp: scan_line_hits [of st raw] split: option.splits dest: hits_exclusive)
  finally show ?case .
qed

lemma scan_lines_last:
  "scan_lines (splitlines txt) =
     (last_some mean_hit (lines_of txt), last_some stdev_hit (lines_of txt))"
  by (simp add: scan_lines_def foldl_scan_line lines_of_def split: option.splits)

lemma last_some_None: "last_some f xs = None \<longleftrightarrow> (\<forall>x \<in> set xs. f x = None)"
  by (induction xs) (auto split: option.splits)

lemma last_some_append:
  "last_some f (xs @ ys) = (case last_some f ys of Some v \<Rightarrow> Some v | None \<Rightarrow> last_some f xs)"
  by (induction xs) (auto split: option.splits)

lemma last_some_split:
  assumes "f x = Some v" and "\<forall>y \<in> set post. f y = None"
  shows "last_some f (pre @ x # post) = Some v"
proof -
  have "last_some f post = None" using assms(2) by (simp add: last_some_None)
  then show ?thesis using assms(1) by (simp add: last_some_append)
qed

lemma mean_hit_Some: "mean_hit l = Some v \<longleftrightarrow> pycontains mean_marker l \<and> extract_value l = Inr v"
  by (auto simp: mean_hit_def split: sum.splits)

lemma mean_hit_None: "mean_hit l = None \<longleftrightarrow> (pycontains mean_marker l \<longrightarrow> isl (extract_value l))"
  by (auto simp: mean_hit_def split: sum.splits)

lemma stdev_hit_Some:
  "stdev_hit l = Some v \<longleftrightarrow>
     \<not> pycontains mean_marker l \<and> pycontains stdev_marker l \<and> extract_value l = Inr v"
  by (auto simp: stdev_hit_def split: sum.splits)

lemma stdev_hit_None:
  "stdev_hit l = None \<longleftrightarrow>
     (\<not> pycontains mean_marker l \<and> pycontains stdev_marker l \<longrightarrow> isl (extract_value l))"
  by (auto simp: stdev_hit_def split: sum.splits)

lemma get_extinction_parsed:
  assumes "validate galaxy ra dec radius teff = Inr base_url"
    and "http_get w (make_request base_url ra dec radius teff) = HttpResponse status body"
    and "\<not> raise_for_status status"
  shows "fst (get_extinction w galaxy ra dec radius teff trace) =
           finish (last_some mean_hit (lines_of (get_text w body)),
                   last_some stdev_hit (lines_of (get_text w body)))"
  using assms by (simp add: get_extinction_def Let_def parse_text_def scan_lines_last)

lemma finish_Inr: "finish st = Inr (m, s) \<longleftrightarrow> st = (Some m, Some s)"
  by (auto simp: finish_def split: prod.splits option.splits)

lemma finish_None: "fst st = None \<or> snd st = None \<Longrightarrow> finish st = Inl NoStarsFound"
  by (auto simp: finish_def split: prod.splits option.splits)

subsection \<open>Validation\<close>

lemma validate_unit_mismatch:
  assumes "normalize_galaxy g = Some G"
    and "num_of ra = Some x" and "is_float_or_int ra" and "is_float_or_int dec"
    and "unit_mismatch G x"
  shows "validate (PyStr g) ra dec radius teff = Inl CoordinateUnitMismatch"
proof -
  from assms(4) obtain y where y: "num_of dec = Some y"
    using is_float_or_int_num by blast
  have "select_endpoint (pyupper g) ra dec = Inl CoordinateUnitMismatch"
    using assms by (simp add: select_endpoint_spec [OF assms(2) y])
  then show ?thesis using assms by (simp add: validate_def)
qed

lemma lmc_sample_in_bounds:
  "select_endpoint (pyupper ''LMC'') (PyFloat (Fin 5.20)) (PyFloat (Fin (- 69.50))) = Inr lmc_url"
  by code_simp

lemma validate_no_range_error:
  assumes "select_endpoint (pyupper g) ra dec = Inr base_url"
  shows "fst (get_extinction w (PyStr g) ra dec radius teff trace) \<noteq> Inl (CoordinateOutOfRange c)"
proof (cases "validate (PyStr g) ra dec radius teff")
  case (Inl e)
  then have "e \<noteq> CoordinateOutOfRange c"
    using assms
    by (auto simp: validate_def raise_unless_def py_lt_le_def
        split: if_splits option.splits sum.splits)
  with Inl show ?thesis by (simp add: get_extinction_invalid)
next
  case (Inr u)
  from get_extinction_outcomes [OF this, of w trace] show ?thesis by auto
qed

lemma validate_radius:
  assumes "select_endpoint (pyupper g) ra dec = Inr base_url"
    and "is_float_or_int ra" and "is_float_or_int dec" and "num_of radius = Some r"
  shows "validate (PyStr g) ra dec radius teff =
           (if \<not> radius_ok r then Inl InvalidRadius
            else if \<not> teff_ok teff then Inl InvalidTeff
            else Inr base_url)"
  using assms by (simp add: validate_spec)

lemma validate_Inr:
  assumes "validate galaxy ra dec radius teff = Inr base_url"
  shows "\<exists>g G. galaxy = PyStr g \<and> normalize_galaxy g = Some G \<and> base_url = endpoint G"
proof -
  from assms obtain g where g: "galaxy = PyStr g"
    by (cases galaxy) (simp_all add: validate_def)
  from assms g have s: "select_endpoint (pyupper g) ra dec = Inr base_url"
    by (auto simp: validate_def raise_unless_def split: if_splits sum.splits)
  then have "(pyupper g = ''LMC'' \<and> base_url = lmc_url) \<or> (pyupper g = ''SMC'' \<and> base_url = smc_url)"
    by (auto simp: select_endpoint_def raise_if_def raise_unless_def split: if_splits sum.splits)
  then have "(normalize_galaxy g = Some LMC \<and> base_url = endpoint LMC)
           \<or> (normalize_galaxy g = Some SMC \<and> base_url = endpoint SMC)"
    by (simp add: normalize_galaxy_LMC normalize_galaxy_SMC lmc_url_def smc_url_def)
  with g show ?thesis by blast
qed

lemma validate_types:
  assumes "\<not> is_float_or_int ra \<or> \<not> is_float_or_int dec"
  shows "validate (PyStr g) ra dec radius teff = Inl (InvalidCoordinateType RA)
       \<or> validate (PyStr g) ra dec radius teff = Inl (InvalidCoordinateType Dec)"
  using assms by (auto simp: validate_def)

lemma violations_first:
  assumes "num_of radius = Some r"
  shows "(violations g ra dec r teff = [] \<longrightarrow>
            (\<exists>G. normalize_galaxy g = Some G
                 \<and> validate (PyStr g) ra dec radius teff = Inr (endpoint G)))
       \<and> (\<forall>e es. violations g ra dec r teff = e # es \<longrightarrow>
            validate (PyStr g) ra dec radius teff = Inl e)"
proof (cases "is_float_or_int ra")
  case False
  then show ?thesis by (simp add: violations_def validate_def)
next
  case ra: True
  show ?thesis
  proof (cases "is_float_or_int dec")
    case False
    with ra show ?thesis by (simp add: violations_def validate_def)
  next
    case dec: True
    from ra obtain x where x: "num_of ra = Some x" using is_float_or_int_num by blast
    from dec obtain y where y: "num_of dec = Some y" using is_float_or_int_num by blast
    show ?thesis
    proof (cases "normalize_galaxy g")
      case None
      with ra dec assms x y show ?thesis
        by (simp add: violations_def validate_spec select_endpoint_spec
            ra_mismatch_violated_def ra_bounds_violated_def dec_bounds_violated_def)
    next
      case (Some G)
      with ra dec assms x y unit_mismatch_out_of_bounds [of G x] show ?thesis
        by (auto simp: violations_def validate_spec select_endpoint_spec
            ra_mismatch_violated_def ra_bounds_violated_def dec_bounds_violated_def)
    qed
  qed
qed

subsection \<open>Splitting a line, and the last line that yields a value\<close>

lemma split_from_unfold:
  "split_from sep cur s =
     (rev cur @ takeWhile (\<lambda>c. c \<noteq> sep) s) #
     (case dropWhile (\<lambda>c. c \<noteq> sep) s of [] \<Rightarrow> [] | c # r \<Rightarrow> split_from sep [] r)"
proof (induction s arbitrary: cur)
  case Nil
  then show ?case by simp
next
  case (Cons c s)
  show ?case
  proof (cases "c = sep")
    case True
    then show ?thesis by simp
  next
    case False
    have "split_from sep cur (c # s) = split_from sep (c # cur) s"
      using False by simp
    also have "\<dots> = (rev (c # cur) @ takeWhile (\<lambda>c. c \<noteq> sep) s) #
       (case dropWhile (\<lambda>c. c \<noteq> sep) s of [] \<Rightarrow> [] | c # r \<Rightarrow> split_from sep [] r)"
      by (rule Cons.IH)
    finally show ?thesis using False by simp
  qed
qed

lemma pysplit_second:
  assumes "sep \<in> set line"
  shows "pyindex (pysplit sep line) 1 =
           Inr (takeWhile (\<lambda>c. c \<noteq> sep) (drop 1 (dropWhile (\<lambda>c. c \<noteq> sep) line)))"
proof -
  from assms have "dropWhile (\<lambda>c. c \<noteq> sep) line \<noteq> []" by simp
  then obtain c r where d: "dropWhile (\<lambda>c. c \<noteq> sep) line = c # r"
    by (cases "dropWhile (\<lambda>c. c \<noteq> sep) line") auto
  have "pysplit sep line = takeWhile (\<lambda>c. c \<noteq> sep) line # split_from sep [] r"
    using split_from_unfold [of sep "[]" line] d by (simp add: pysplit_def)
  also have "split_from sep [] r = takeWhile (\<lambda>c. c \<noteq> sep) r #
       (case dropWhile (\<lambda>c. c \<noteq> sep) r of [] \<Rightarrow> [] | c # r' \<Rightarrow> split_from sep [] r')"
    using split_from_unfold [of sep "[]" r] by simp
  finally show ?thesis using d by simp
qed

lemma startswith_set: "startswith s p \<Longrightarrow> set p \<subseteq> set s"
  by (induction s p rule: startswith.induct) auto

lemma pycontains_set: "pycontains sub s \<Longrightarrow> set sub \<subseteq> set s"
proof (induction s)
  case Nil
  then show ?case by simp
next
  case (Cons c s)
  then show ?case using startswith_set [of "c # s" sub] by auto
qed

lemma marker_has_eq:
  assumes "pycontains mean_marker line \<or> pycontains stdev_marker line"
  shows "CHR ''='' \<in> set line"
proof -
  have "CHR ''='' \<in> set mean_marker" and "CHR ''='' \<in> set stdev_marker"
    by (simp_all add: mean_marker_def stdev_marker_def)
  with assms pycontains_set show ?thesis by blast
qed

lemma mean_line_045: "mean_hit ''<Av> = 0.45 (something)'' = Some (Fin 0.45)"
  by code_simp

lemma stdev_line_012:
  "stdev_hit ''Standard deviation of extinction values = 0.12 mag'' = Some (Fin 0.12)"
  by code_simp

lemma last_some_in: "last_some f xs = Some v \<Longrightarrow> \<exists>x \<in> set xs. f x = Some v"
  by (induction xs) (auto split: option.splits)

lemma last_mean:
  assumes "ls = pre @ l # post" and "pycontains mean_marker l" and "extract_value l = Inr v"
    and "\<forall>l' \<in> set post. pycontains mean_marker l' \<longrightarrow> isl (extract_value l')"
  shows "last_some mean_hit ls = Some v"
  unfolding assms(1)
  by (rule last_some_split) (use assms in \<open>simp_all add: mean_hit_Some mean_hit_None\<close>)

lemma last_stdev:
  assumes "ls = pre @ l # post" and "\<not> pycontains mean_marker l"
    and "pycontains stdev_marker l" and "extract_value l = Inr v"
    and "\<forall>l' \<in> set post.
           \<not> pycontains mean_marker l' \<and> pycontains stdev_marker l' \<longrightarrow> isl (extract_value l')"
  shows "last_some stdev_hit ls = Some v"
  unfolding assms(1)
  by (rule last_some_split) (use assms in \<open>simp_all add: stdev_hit_Some stdev_hit_None\<close>)

section \<open>The claims\<close>

subsection \<open>C1: the sample response\<close>

text \<open>
  Claim C1 says that every response whose text contains the lines
  \<open><Av> = 0.45 (something)\<close> and
  \<open>Standard deviation of extinction values = 0.12 mag\<close> gives the pair
  \<open>(0.45, 0.12)\<close>. The loop of lines 85 to 96 does not stop at a match, so a later
  line with the same marker replaces the value.

  C1, as amended: for valid inputs and a successful request, if the text of the
  response contains the line \<open><Av> = 0.45 (something)\<close> with no later line that
  contains \<open><Av> =\<close> and yields a number, and the line
  \<open>Standard deviation of extinction values = 0.12 mag\<close> with no later line that
  contains its marker and yields a number, then \<open>get_extinction\<close> returns
  \<open>(0.45, 0.12)\<close>; each value is the first whitespace-delimited token after the \<open>=\<close>
  of its line, parsed as a number.
\<close>

theorem sample_response_parsed:
  assumes "validate galaxy ra dec radius teff = Inr base_url"
    and "http_get w (make_request base_url ra dec radius teff) = HttpResponse status body"
    and "\<not> raise_for_status status"
    and "lines_of (get_text w body) = pre @ ''<Av> = 0.45 (something)'' # post"
    and "\<forall>l \<in> set post. pycontains mean_marker l \<longrightarrow> isl (extract_value l)"
    and "lines_of (get_text w body)
           = pre' @ ''Standard deviation of extinction values = 0.12 mag'' # post'"
    and "\<forall>l \<in> set post'. pycontains stdev_marker l \<longrightarrow> isl (extract_value l)"
  shows "fst (get_extinction w galaxy ra dec radius teff trace) = Inr (Fin 0.45, Fin 0.12)
       \<and> first_token (after_first_eq ''<Av> = 0.45 (something)'') = Inr ''0.45''
       \<and> pyfloat_of_str ''0.45'' = Inr (Fin 0.45)
       \<and> first_token (after_first_eq ''Standard deviation of extinction values = 0.12 mag'')
           = Inr ''0.12''
       \<and> pyfloat_of_str ''0.12'' = Inr (Fin 0.12)"
proof -
  have "last_some mean_hit post = None"
    using assms(5) by (simp add: last_some_None mean_hit_None)
  then have m: "last_some mean_hit (lines_of (get_text w body)) = Some (Fin 0.45)"
    by (simp add: assms(4) last_some_append mean_line_045)
  have "last_some stdev_hit post' = None"
    using assms(7) by (simp add: last_some_None stdev_hit_None)
  then have s: "last_some stdev_hit (lines_of (get_text w body)) = Some (Fin 0.12)"
    by (simp add: assms(6) last_some_append stdev_line_012)
  have 1: "fst (get_extinction w galaxy ra dec radius teff trace) = Inr (Fin 0.45, Fin 0.12)"
    by (simp add: get_extinction_parsed [OF assms(1-3)] m s finish_def)
  have 2: "first_token (after_first_eq ''<Av> = 0.45 (something)'') = Inr ''0.45''"
    by code_simp
  have 3: "pyfloat_of_str ''0.45'' = Inr (Fin 0.45)"
    by code_simp
  have 4: "first_token (after_first_eq ''Standard deviation of extinction values = 0.12 mag'')
           = Inr ''0.12''"
    by code_simp
  have 5: "pyfloat_of_str ''0.12'' = Inr (Fin 0.12)"
    by code_simp
  from 1 2 3 4 5 show ?thesis by blast
qed

text \<open>
  C1, witness: a response of five lines; an earlier \<open><Av> =\<close> line with another value
  and a later one that is not a number do not change the result.
\<close>

theorem sample_response_parsed_witness:
  "validate (PyStr ''LMC'') (PyFloat (Fin 5.2)) (PyFloat (Fin (- 69.5))) (PyInt 5) (PyStr ''all'')
     = Inr lmc_url
   \<and> lines_of (''Results'' @ [CHR 0x0A] @ ''<Av> = 0.30'' @ [CHR 0x0A]
         @ ''  <Av> = 0.45 (something)  '' @ [CHR 0x0A]
         @ ''Standard deviation of extinction values = 0.12 mag'' @ [CHR 0x0A]
         @ ''<Av> = n/a'')
       = [''Results'', ''<Av> = 0.30'', ''<Av> = 0.45 (something)'',
          ''Standard deviation of extinction values = 0.12 mag'', ''<Av> = n/a'']
   \<and> fst (get_extinction
        (mock_env (''Results'' @ [CHR 0x0A] @ ''<Av> = 0.30'' @ [CHR 0x0A]
         @ ''  <Av> = 0.45 (something)  '' @ [CHR 0x0A]
         @ ''Standard deviation of extinction values = 0.12 mag'' @ [CHR 0x0A]
         @ ''<Av> = n/a''))
        (PyStr ''LMC'') (PyFloat (Fin 5.2)) (PyFloat (Fin (- 69.5))) (PyInt 5) (PyStr ''all'') [])
       = Inr (Fin 0.45, Fin 0.12)"
proof -
  define body where "body = ''Results'' @ [CHR 0x0A] @ ''<Av> = 0.30'' @ [CHR 0x0A]
         @ ''  <Av> = 0.45 (something)  '' @ [CHR 0x0A]
         @ ''Standard deviation of extinction values = 0.12 mag'' @ [CHR 0x0A]
         @ ''<Av> = n/a''"
  have a: "validate (PyStr ''LMC'') (PyFloat (Fin 5.2)) (PyFloat (Fin (- 69.5))) (PyInt 5)
             (PyStr ''all'') = Inr lmc_url"
    by code_simp
  have b: "http_get (mock_env body)
             (make_request lmc_url (PyFloat (Fin 5.2)) (PyFloat (Fin (- 69.5))) (PyInt 5)
                (PyStr ''all'')) = HttpResponse 200 body"
    by (simp add: mock_env_def)
  have c: "\<not> raise_for_status 200"
    by (simp add: raise_for_status_def)
  have ls: "lines_of body
       = [''Results'', ''<Av> = 0.30'', ''<Av> = 0.45 (something)'',
          ''Standard deviation of extinction values = 0.12 mag'', ''<Av> = n/a'']"
    unfolding body_def by code_simp
  have d: "lines_of (get_text (mock_env body) body)
       = [''Results'', ''<Av> = 0.30''] @ ''<Av> = 0.45 (something)''
          # [''Standard deviation of extinction values = 0.12 mag'', ''<Av> = n/a'']"
    by (simp add: mock_env_def ls)
  have e: "\<forall>l \<in> set [''Standard deviation of extinction values = 0.12 mag'', ''<Av> = n/a''].
             pycontains mean_marker l \<longrightarrow> isl (extract_value l)"
    by code_simp
  have f: "lines_of (get_text (mock_env body) body)
       = [''Results'', ''<Av> = 0.30'', ''<Av> = 0.45 (something)'']
          @ ''Standard deviation of extinction values = 0.12 mag'' # [''<Av> = n/a'']"
    by (simp add: mock_env_def ls)
  have g: "\<forall>l \<in> set [''<Av> = n/a'']. pycontains stdev_marker l \<longrightarrow> isl (extract_value l)"
    by code_simp
  from sample_response_parsed [OF a b c d e f g, of "[]"] a ls show ?thesis
    unfolding body_def by blast
qed

text \<open>
  C1, counterexample to the claim as stated: the response contains both lines, and a
  third line \<open><Av> = 0.99 (other)\<close> after them; the call returns \<open>(0.99, 0.12)\<close>.
\<close>

theorem sample_response_later_line_overrides:
  "''<Av> = 0.45 (something)''
     \<in> set (lines_of (''<Av> = 0.45 (something)'' @ [CHR 0x0A]
         @ ''Standard deviation of extinction values = 0.12 mag'' @ [CHR 0x0A]
         @ ''<Av> = 0.99 (other)''))
   \<and> ''Standard deviation of extinction values = 0.12 mag''
     \<in> set (lines_of (''<Av> = 0.45 (something)'' @ [CHR 0x0A]
         @ ''Standard deviation of extinction values = 0.12 mag'' @ [CHR 0x0A]
         @ ''<Av> = 0.99 (other)''))
   \<and> get_extinction
        (mock_env (''<Av> = 0.45 (something)'' @ [CHR 0x0A]
         @ ''Standard deviation of extinction values = 0.12 mag'' @ [CHR 0x0A]
         @ ''<Av> = 0.99 (other)''))
        (PyStr ''LMC'') (PyFloat (Fin 5.2)) (PyFloat (Fin (- 69.5))) (PyInt 5) (PyStr ''all'') []
       = (Inr (Fin 0.99, Fin 0.12),
          [make_request lmc_url (PyFloat (Fin 5.2)) (PyFloat (Fin (- 69.5))) (PyInt 5)
             (PyStr ''all'')])
   \<and> Fin 0.99 \<noteq> Fin 0.45"
  by code_simp

subsection \<open>C2: both values or none\<close>

text \<open>
  C2: for valid inputs and a successful request, \<open>get_extinction\<close> returns a pair
  \<open>(m, s)\<close> only when some line containing \<open><Av> =\<close> yielded \<open>m\<close> and some line
  containing the standard-deviation marker yielded \<open>s\<close>; if every line containing
  the marker of the mean fails to yield a number (in particular if there is no such
  line), or likewise for the standard deviation, the call fails with \<open>NoStarsFound\<close>;
  and the call either fails with \<open>NoStarsFound\<close> or returns a pair, never one value
  alone.
\<close>

theorem no_partial_result:
  assumes "validate galaxy ra dec radius teff = Inr base_url"
    and "http_get w (make_request base_url ra dec radius teff) = HttpResponse status body"
    and "\<not> raise_for_status status"
  shows "(\<forall>m s. fst (get_extinction w galaxy ra dec radius teff trace) = Inr (m, s) \<longrightarrow>
            (\<exists>l \<in> set (lines_of (get_text w body)).
               pycontains mean_marker l \<and> extract_value l = Inr m)
          \<and> (\<exists>l \<in> set (lines_of (get_text w body)).
               pycontains stdev_marker l \<and> extract_value l = Inr s))
       \<and> ((\<forall>l \<in> set (lines_of (get_text w body)).
              pycontains mean_marker l \<longrightarrow> isl (extract_value l)) \<longrightarrow>
            fst (get_extinction w galaxy ra dec radius teff trace) = Inl NoStarsFound)
       \<and> ((\<forall>l \<in> set (lines_of (get_text w body)).
              pycontains stdev_marker l \<longrightarrow> isl (extract_value l)) \<longrightarrow>
            fst (get_extinction w galaxy ra dec radius teff trace) = Inl NoStarsFound)
       \<and> (fst (get_extinction w galaxy ra dec radius teff trace) = Inl NoStarsFound
          \<or> (\<exists>m s. fst (get_extinction w galaxy ra dec radius teff trace) = Inr (m, s)))"
proof -
  let ?ls = "lines_of (get_text w body)"
  let ?r = "fst (get_extinction w galaxy ra dec radius teff trace)"
  have r: "?r = finish (last_some mean_hit ?ls, last_some stdev_hit ?ls)"
    by (rule get_extinction_parsed [OF assms])
  have 1: "\<forall>m s. ?r = Inr (m, s) \<longrightarrow>
            (\<exists>l \<in> set ?ls. pycontains mean_marker l \<and> extract_value l = Inr m)
          \<and> (\<exists>l \<in> set ?ls. pycontains stdev_marker l \<and> extract_value l = Inr s)"
  proof (intro allI impI)
    fix m s
    assume "?r = Inr (m, s)"
    with r have "finish (last_some mean_hit ?ls, last_some stdev_hit ?ls) = Inr (m, s)"
      by simp
    then have ms: "last_some mean_hit ?ls = Some m" "last_some stdev_hit ?ls = Some s"
      by (simp_all add: finish_Inr)
    from last_some_in [OF ms(1)] obtain l where "l \<in> set ?ls" "mean_hit l = Some m"
      by blast
    moreover from last_some_in [OF ms(2)] obtain l' where "l' \<in> set ?ls" "stdev_hit l' = Some s"
      by blast
    ultimately show "(\<exists>l \<in> set ?ls. pycontains mean_marker l \<and> extract_value l = Inr m)
          \<and> (\<exists>l \<in> set ?ls. pycontains stdev_marker l \<and> extract_value l = Inr s)"
      by (auto simp: mean_hit_Some stdev_hit_Some)
  qed
  have 2: "(\<forall>l \<in> set ?ls. pycontains mean_marker l \<longrightarrow> isl (extract_value l)) \<longrightarrow>
            ?r = Inl NoStarsFound"
  proof
    assume "\<forall>l \<in> set ?ls. pycontains mean_marker l \<longrightarrow> isl (extract_value l)"
    then have "last_some mean_hit ?ls = None"
      by (simp add: last_some_None mean_hit_None)
    with r show "?r = Inl NoStarsFound" by (simp add: finish_None)
  qed
  have 3: "(\<forall>l \<in> set ?ls. pycontains stdev_marker l \<longrightarrow> isl (extract_value l)) \<longrightarrow>
            ?r = Inl NoStarsFound"
  proof
    assume "\<forall>l \<in> set ?ls. pycontains stdev_marker l \<longrightarrow> isl (extract_value l)"
    then have "last_some stdev_hit ?ls = None"
      by (simp add: last_some_None stdev_hit_None)
    with r show "?r = Inl NoStarsFound" by (simp add: finish_None)
  qed
  have 4: "?r = Inl NoStarsFound \<or> (\<exists>m s. ?r = Inr (m, s))"
    unfolding r by (auto simp: finish_def split: option.splits)
  from 1 2 3 4 show ?thesis by blast
qed

text \<open>
  C2, witness: the mean is present and the standard deviation reads \<open>n/a\<close>; the call
  fails with \<open>NoStarsFound\<close>.
\<close>

theorem no_partial_result_witness:
  "validate (PyStr ''SMC'') (PyInt 1) (PyInt (- 72)) (PyInt 1) (PyStr ''cool'') = Inr smc_url
   \<and> lines_of (''<Av> = 0.45 (something)'' @ [CHR 0x0A]
         @ ''Standard deviation of extinction values = n/a'')
       = [''<Av> = 0.45 (something)'', ''Standard deviation of extinction values = n/a'']
   \<and> extract_value ''<Av> = 0.45 (something)'' = Inr (Fin 0.45)
   \<and> extract_value ''Standard deviation of extinction values = n/a'' = Inl FloatValueError
   \<and> fst (get_extinction
        (mock_env (''<Av> = 0.45 (something)'' @ [CHR 0x0A]
         @ ''Standard deviation of extinction values = n/a''))
        (PyStr ''SMC'') (PyInt 1) (PyInt (- 72)) (PyInt 1) (PyStr ''cool'') [])
       = Inl NoStarsFound"
proof -
  define body where "body = ''<Av> = 0.45 (something)'' @ [CHR 0x0A]
         @ ''Standard deviation of extinction values = n/a''"
  have a: "validate (PyStr ''SMC'') (PyInt 1) (PyInt (- 72)) (PyInt 1) (PyStr ''cool'')
             = Inr smc_url"
    by code_simp
  have b: "http_get (mock_env body)
             (make_request smc_url (PyInt 1) (PyInt (- 72)) (PyInt 1) (PyStr ''cool''))
             = HttpResponse 200 body"
    by (simp add: mock_env_def)
  have c: "\<not> raise_for_status 200"
    by (simp add: raise_for_status_def)
  have ls: "lines_of body
       = [''<Av> = 0.45 (something)'', ''Standard deviation of extinction values = n/a'']"
    unfolding body_def by code_simp
  have x: "extract_value ''<Av> = 0.45 (something)'' = Inr (Fin 0.45)"
    and y: "extract_value ''Standard deviation of extinction values = n/a'' = Inl FloatValueError"
    by code_simp+
  have "\<forall>l \<in> set [''<Av> = 0.45 (something)'', ''Standard deviation of extinction values = n/a''].
          pycontains stdev_marker l \<longrightarrow> isl (extract_value l)"
    by code_simp
  then have d: "\<forall>l \<in> set (lines_of (get_text (mock_env body) body)).
          pycontains stdev_marker l \<longrightarrow> isl (extract_value l)"
    by (simp only: ls mock_env_def env.simps)
  from no_partial_result [OF a b c, of "[]"] d
  have "fst (get_extinction (mock_env body) (PyStr ''SMC'') (PyInt 1) (PyInt (- 72)) (PyInt 1)
              (PyStr ''cool'') []) = Inl NoStarsFound"
    by blast
  with a ls x y show ?thesis unfolding body_def by blast
qed

subsection \<open>C3: several lines with the same marker\<close>

text \<open>
  Claim C3 says that of several lines with the same marker the first one gives the value
  returned. The loop of lines 85 to 96 runs over all lines and assigns at each line
  that yields a number, so the last one does.

  C3, as amended: for valid inputs and a successful request, the value returned for a
  marker is the one of the LAST line that contains the marker and yields a number
  (for the standard deviation, of the last such line that does not also contain
  \<open><Av> =\<close>): if after a line \<open>l\<close> that contains the marker and yields \<open>v\<close> no line
  contains the marker and yields a number, then every pair returned has \<open>v\<close> for that
  marker.
\<close>

theorem last_parsed_marker_line_wins:
  assumes "validate galaxy ra dec radius teff = Inr base_url"
    and "http_get w (make_request base_url ra dec radius teff) = HttpResponse status body"
    and "\<not> raise_for_status status"
  shows "(\<forall>pre l post v.
            lines_of (get_text w body) = pre @ l # post
            \<and> pycontains mean_marker l \<and> extract_value l = Inr v
            \<and> (\<forall>l' \<in> set post. pycontains mean_marker l' \<longrightarrow> isl (extract_value l'))
            \<longrightarrow> fst (get_extinction w galaxy ra dec radius teff trace) = Inl NoStarsFound
                \<or> (\<exists>s. fst (get_extinction w galaxy ra dec radius teff trace) = Inr (v, s)))
       \<and> (\<forall>pre l post v.
            lines_of (get_text w body) = pre @ l # post
            \<and> \<not> pycontains mean_marker l \<and> pycontains stdev_marker l \<and> extract_value l = Inr v
            \<and> (\<forall>l' \<in> set post. \<not> pycontains mean_marker l' \<and> pycontains stdev_marker l'
                   \<longrightarrow> isl (extract_value l'))
            \<longrightarrow> fst (get_extinction w galaxy ra dec radius teff trace) = Inl NoStarsFound
                \<or> (\<exists>m. fst (get_extinction w galaxy ra dec radius teff trace) = Inr (m, v)))"
proof -
  let ?ls = "lines_of (get_text w body)"
  let ?r = "fst (get_extinction w galaxy ra dec radius teff trace)"
  have r: "?r = finish (last_some mean_hit ?ls, last_some stdev_hit ?ls)"
    by (rule get_extinction_parsed [OF assms])
  have 1: "\<forall>pre l post v.
            ?ls = pre @ l # post
            \<and> pycontains mean_marker l \<and> extract_value l = Inr v
            \<and> (\<forall>l' \<in> set post. pycontains mean_marker l' \<longrightarrow> isl (extract_value l'))
            \<longrightarrow> ?r = Inl NoStarsFound \<or> (\<exists>s. ?r = Inr (v, s))"
  proof (intro allI impI)
    fix pre l post v
    assume h: "?ls = pre @ l # post
            \<and> pycontains mean_marker l \<and> extract_value l = Inr v
            \<and> (\<forall>l' \<in> set post. pycontains mean_marker l' \<longrightarrow> isl (extract_value l'))"
    then have "last_some mean_hit ?ls = Some v"
      using last_mean [of ?ls pre l post v] by blast
    then show "?r = Inl NoStarsFound \<or> (\<exists>s. ?r = Inr (v, s))"
      unfolding r by (auto simp: finish_def split: option.splits)
  qed
  have 2: "\<forall>pre l post v.
            ?ls = pre @ l # post
            \<and> \<not> pycontains mean_marker l \<and> pycontains stdev_marker l \<and> extract_value l = Inr v
            \<and> (\<forall>l' \<in> set post. \<not> pycontains mean_marker l' \<and> pycontains stdev_marker l'
                   \<longrightarrow> isl (extract_value l'))
            \<longrightarrow> ?r = Inl NoStarsFound \<or> (\<exists>m. ?r = Inr (m, v))"
  proof (intro allI impI)
    fix pre l post v
    assume h: "?ls = pre @ l # post
            \<and> \<not> pycontains mean_marker l \<and> pycontains stdev_marker l \<and> extract_value l = Inr v
            \<and> (\<forall>l' \<in> set post. \<not> pycontains mean_marker l' \<and> pycontains stdev_marker l'
                   \<longrightarrow> isl (extract_value l'))"
    then have "last_some stdev_hit ?ls = Some v"
      using last_stdev [of ?ls pre l post v] by blast
    then show "?r = Inl NoStarsFound \<or> (\<exists>m. ?r = Inr (m, v))"
      unfolding r by (auto simp: finish_def split: option.splits)
  qed
  from 1 2 show ?thesis by blast
qed

text \<open>
  C3, witness: two lines with the standard-deviation marker, \<open>0.10\<close> and then \<open>0.20\<close>;
  the pair returned has \<open>0.20\<close>.
\<close>

theorem last_parsed_marker_line_wins_witness:
  "validate (PyStr ''smc'') (PyInt 1) (PyInt (- 72)) (PyInt 1) (PyStr ''all'') = Inr smc_url
   \<and> lines_of (''<Av> = 0.45'' @ [CHR 0x0A]
         @ ''Standard deviation of extinction values = 0.10 mag'' @ [CHR 0x0A]
         @ ''Standard deviation of extinction values = 0.20 mag'')
       = [''<Av> = 0.45'', ''Standard deviation of extinction values = 0.10 mag'',
          ''Standard deviation of extinction values = 0.20 mag'']
   \<and> extract_value ''Standard deviation of extinction values = 0.10 mag'' = Inr (Fin 0.10)
   \<and> extract_value ''Standard deviation of extinction values = 0.20 mag'' = Inr (Fin 0.20)
   \<and> (\<exists>m. fst (get_extinction
        (mock_env (''<Av> = 0.45'' @ [CHR 0x0A]
         @ ''Standard deviation of extinction values = 0.10 mag'' @ [CHR 0x0A]
         @ ''Standard deviation of extinction values = 0.20 mag''))
        (PyStr ''smc'') (PyInt 1) (PyInt (- 72)) (PyInt 1) (PyStr ''all'') [])
       = Inr (m, Fin 0.20))"
proof -
  define body where "body = ''<Av> = 0.45'' @ [CHR 0x0A]
         @ ''Standard deviation of extinction values = 0.10 mag'' @ [CHR 0x0A]
         @ ''Standard deviation of extinction values = 0.20 mag''"
  let ?r = "fst (get_extinction (mock_env body) (PyStr ''smc'') (PyInt 1) (PyInt (- 72))
              (PyInt 1) (PyStr ''all'') [])"
  have a: "validate (PyStr ''smc'') (PyInt 1) (PyInt (- 72)) (PyInt 1) (PyStr ''all'')
             = Inr smc_url"
    by code_simp
  have b: "http_get (mock_env body)
             (make_request smc_url (PyInt 1) (PyInt (- 72)) (PyInt 1) (PyStr ''all''))
             = HttpResponse 200 body"
    by (simp add: mock_env_def)
  have c: "\<not> raise_for_status 200"
    by (simp add: raise_for_status_def)
  have ls: "lines_of body
       = [''<Av> = 0.45'', ''Standard deviation of extinction values = 0.10 mag'',
          ''Standard deviation of extinction values = 0.20 mag'']"
    unfolding body_def by code_simp
  have x: "extract_value ''Standard deviation of extinction values = 0.10 mag'' = Inr (Fin 0.10)"
    and y: "extract_value ''Standard deviation of extinction values = 0.20 mag'' = Inr (Fin 0.20)"
    by code_simp+
  have d: "lines_of (get_text (mock_env body) body)
       = [''<Av> = 0.45'', ''Standard deviation of extinction values = 0.10 mag'']
          @ ''Standard deviation of extinction values = 0.20 mag'' # []"
    by (simp add: mock_env_def ls)
  have e: "\<not> pycontains mean_marker ''Standard deviation of extinction values = 0.20 mag''"
    and f: "pycontains stdev_marker ''Standard deviation of extinction values = 0.20 mag''"
    by code_simp+
  have g: "\<forall>l' \<in> set []. \<not> pycontains mean_marker l' \<and> pycontains stdev_marker l'
             \<longrightarrow> isl (extract_value l')"
    by simp
  from last_parsed_marker_line_wins [OF a b c, of "[]"] d e f y g
  have "?r = Inl NoStarsFound \<or> (\<exists>m. ?r = Inr (m, Fin 0.20))"
    by blast
  moreover have "?r \<noteq> Inl NoStarsFound"
    unfolding body_def by code_simp
  ultimately have "\<exists>m. ?r = Inr (m, Fin 0.20)" by blast
  with a ls x y show ?thesis unfolding body_def by blast
qed

text \<open>
  C3, counterexample to the claim as stated: the lines \<open><Av> = 0.10\<close> and then
  \<open><Av> = 0.20\<close> both contain the marker and yield distinct numbers; the call
  returns the mean \<open>0.20\<close> of the later line, not \<open>0.10\<close>.
\<close>

theorem first_marker_line_does_not_win:
  "lines_of (''<Av> = 0.10'' @ [CHR 0x0A] @ ''<Av> = 0.20'' @ [CHR 0x0A]
         @ ''Standard deviation of extinction values = 0.05 mag'')
       = [''<Av> = 0.10'', ''<Av> = 0.20'', ''Standard deviation of extinction values = 0.05 mag'']
   \<and> pycontains mean_marker ''<Av> = 0.10'' \<and> extract_value ''<Av> = 0.10'' = Inr (Fin 0.10)
   \<and> pycontains mean_marker ''<Av> = 0.20'' \<and> extract_value ''<Av> = 0.20'' = Inr (Fin 0.20)
   \<and> fst (get_extinction
        (mock_env (''<Av> = 0.10'' @ [CHR 0x0A] @ ''<Av> = 0.20'' @ [CHR 0x0A]
         @ ''Standard deviation of extinction values = 0.05 mag''))
        (PyStr ''LMC'') (PyFloat (Fin 5.2)) (PyFloat (Fin (- 69.5))) (PyInt 5) (PyStr ''all'') [])
       = Inr (Fin 0.20, Fin 0.05)
   \<and> Fin 0.20 \<noteq> Fin 0.10"
  by code_simp

subsection \<open>C4: an unrecognised galaxy\<close>

text \<open>
  Claim C4 says that a galaxy string that is not case-insensitively equal to \<open>LMC\<close>
  or \<open>SMC\<close> fails with \<open>InvalidGalaxy\<close> for all values of the other arguments. The
  code checks the types of \<open>ra\<close> and \<open>dec\<close> first (lines 38 to 41), so the claim
  holds as follows.

  C4, as amended: for every galaxy string that is not case-insensitively equal to
  \<open>LMC\<close> or \<open>SMC\<close>, every \<open>ra\<close> and \<open>dec\<close> of type float or int, and all values of
  \<open>radius\<close> and \<open>teff\<close>, \<open>get_extinction\<close> fails with \<open>InvalidGalaxy\<close> (and sends no
  request).
\<close>

theorem invalid_galaxy_for_numeric_coordinates:
  assumes "\<not> ci_equal g ''LMC''" and "\<not> ci_equal g ''SMC''"
    and "is_float_or_int ra" and "is_float_or_int dec"
  shows "get_extinction w (PyStr g) ra dec radius teff trace = (Inl InvalidGalaxy, trace)"
  by (rule get_extinction_invalid) (rule validate_bad_galaxy [OF assms])

text \<open>C4, witness: the galaxy \<open>M31\<close> with numeric coordinates; radius and teff are \<open>None\<close>.\<close>

theorem invalid_galaxy_for_numeric_coordinates_witness:
  "\<not> ci_equal ''M31'' ''LMC'' \<and> \<not> ci_equal ''M31'' ''SMC''
   \<and> is_float_or_int (PyFloat (Fin 5.2)) \<and> is_float_or_int (PyInt (- 69))
   \<and> get_extinction (mock_env '''') (PyStr ''M31'') (PyFloat (Fin 5.2)) (PyInt (- 69))
        PyNone PyNone []
       = (Inl InvalidGalaxy, [])"
proof -
  have a: "\<not> ci_equal ''M31'' ''LMC''" and b: "\<not> ci_equal ''M31'' ''SMC''"
    by code_simp+
  have c: "is_float_or_int (PyFloat (Fin 5.2))" and d: "is_float_or_int (PyInt (- 69))"
    by simp_all
  from invalid_galaxy_for_numeric_coordinates [OF a b c d] a b c d show ?thesis
    by blast
qed

text \<open>
  C4, counterexample to the claim as stated: the galaxy \<open>M31\<close> with the right
  ascension given as the string \<open>04:30:00\<close> fails with the coordinate-type error of
  line 39, not with \<open>InvalidGalaxy\<close>.
\<close>

theorem invalid_galaxy_not_for_all_arguments:
  "\<not> ci_equal ''M31'' ''LMC'' \<and> \<not> ci_equal ''M31'' ''SMC''
   \<and> get_extinction (mock_env '''') (PyStr ''M31'') (PyStr ''04:30:00'')
        (PyFloat (Fin (- 69.5))) (PyInt 5) (PyStr ''all'') []
       = (Inl (InvalidCoordinateType RA), [])"
  by code_simp

subsection \<open>C5: a right ascension in degrees\<close>

text \<open>
  Claim C5 says that for a galaxy that normalises to LMC and every numeric
  \<open>ra > 7.0\<close>, and for a galaxy that normalises to SMC and every numeric \<open>ra > 6.0\<close>,
  \<open>get_extinction\<close> fails with \<open>CoordinateUnitMismatch\<close>, in particular for LMC with
  \<open>ra = 78.0\<close>. The code checks the type of \<open>dec\<close> (lines 40 and 41) before it
  compares \<open>ra\<close> (lines 45 and 54), so the claim holds as follows.

  C5, as amended: for a galaxy that normalises to LMC and every numeric \<open>ra > 7.0\<close>,
  and for a galaxy that normalises to SMC and every numeric \<open>ra > 6.0\<close>, with \<open>dec\<close>
  of type float or int, \<open>get_extinction\<close> fails with \<open>CoordinateUnitMismatch\<close>. Such an
  \<open>ra\<close> is also outside the bounds of the galaxy, so the unit error is raised instead
  of the bounds error. In particular LMC with \<open>ra = 78.0\<close> (and such a \<open>dec\<close>) fails
  with \<open>CoordinateUnitMismatch\<close>, and LMC with \<open>ra = 5.20\<close>, \<open>dec = -69.50\<close> passes
  the coordinate checks of lines 43 to 50.
\<close>

theorem unit_mismatch_before_bounds:
  assumes "normalize_galaxy g = Some G"
    and "is_float_or_int ra" and "is_float_or_int dec"
    and "num_of ra = Some x" and "unit_mismatch G x"
  shows "get_extinction w (PyStr g) ra dec radius teff trace = (Inl CoordinateUnitMismatch, trace)
       \<and> \<not> ra_in_bounds G x
       \<and> get_extinction w (PyStr ''LMC'') (PyFloat (Fin 78.0)) dec radius teff trace
           = (Inl CoordinateUnitMismatch, trace)
       \<and> select_endpoint (pyupper ''LMC'') (PyFloat (Fin 5.20)) (PyFloat (Fin (- 69.50)))
           = Inr (endpoint LMC)"
proof -
  have 1: "get_extinction w (PyStr g) ra dec radius teff trace = (Inl CoordinateUnitMismatch, trace)"
    by (rule get_extinction_invalid)
       (rule validate_unit_mismatch [OF assms(1) assms(4) assms(2) assms(3) assms(5)])
  have 2: "\<not> ra_in_bounds G x"
    by (rule unit_mismatch_out_of_bounds [OF assms(5)])
  have n: "normalize_galaxy ''LMC'' = Some LMC" by code_simp
  have m: "unit_mismatch LMC (Fin 78.0)" by (simp add: unit_mismatch_def)
  have 3: "get_extinction w (PyStr ''LMC'') (PyFloat (Fin 78.0)) dec radius teff trace
           = (Inl CoordinateUnitMismatch, trace)"
    by (rule get_extinction_invalid)
       (rule validate_unit_mismatch [OF n _ _ assms(3) m], simp_all)
  have 4: "select_endpoint (pyupper ''LMC'') (PyFloat (Fin 5.20)) (PyFloat (Fin (- 69.50)))
           = Inr (endpoint LMC)"
    by (simp only: lmc_sample_in_bounds endpoint_urls)
  from 1 2 3 4 show ?thesis by blast
qed

text \<open>C5, witness: SMC with \<open>ra = 11.25\<close>, the example of the message on line 55.\<close>

theorem unit_mismatch_before_bounds_witness:
  "normalize_galaxy ''smc'' = Some SMC
   \<and> is_float_or_int (PyFloat (Fin 11.25)) \<and> is_float_or_int (PyFloat (Fin (- 72)))
   \<and> num_of (PyFloat (Fin 11.25)) = Some (Fin 11.25) \<and> unit_mismatch SMC (Fin 11.25)
   \<and> get_extinction (mock_env '''') (PyStr ''smc'') (PyFloat (Fin 11.25)) (PyFloat (Fin (- 72)))
        (PyInt 5) (PyStr ''all'') [] = (Inl CoordinateUnitMismatch, [])
   \<and> \<not> ra_in_bounds SMC (Fin 11.25)"
proof -
  have a: "normalize_galaxy ''smc'' = Some SMC" by code_simp
  have b: "is_float_or_int (PyFloat (Fin 11.25))" and c: "is_float_or_int (PyFloat (Fin (- 72)))"
    by simp_all
  have d: "num_of (PyFloat (Fin 11.25)) = Some (Fin 11.25)" by simp
  have e: "unit_mismatch SMC (Fin 11.25)" by (simp add: unit_mismatch_def)
  from unit_mismatch_before_bounds [OF a b c d e] a b c d e show ?thesis by blast
qed

text \<open>
  C5, counterexample to the claim as stated: LMC with \<open>ra = 78.0\<close> and the declination
  given as the string \<open>-69:30:00\<close> fails with the coordinate-type error of line 41,
  not with \<open>CoordinateUnitMismatch\<close>.
\<close>

theorem unit_mismatch_not_for_every_dec:
  "normalize_galaxy ''LMC'' = Some LMC
   \<and> is_float_or_int (PyFloat (Fin 78.0))
   \<and> num_of (PyFloat (Fin 78.0)) = Some (Fin 78.0) \<and> unit_mismatch LMC (Fin 78.0)
   \<and> get_extinction (mock_env '''') (PyStr ''LMC'') (PyFloat (Fin 78.0)) (PyStr ''-69:30:00'')
        (PyInt 5) (PyStr ''all'') []
       = (Inl (InvalidCoordinateType Dec), [])"
  by code_simp

subsection \<open>C6: the rectangular bounds\<close>

text \<open>
  C6: for a recognised galaxy and numeric \<open>ra\<close> and \<open>dec\<close> that pass the unit-mismatch
  check, \<open>get_extinction\<close> fails with \<open>CoordinateOutOfRange\<close> exactly when
  \<open>(ra, dec)\<close> is outside the bounds of the galaxy in the table: LMC \<open>4.48 .. 6.27\<close>
  hours and \<open>-72.5 .. -65.2\<close> degrees, SMC \<open>0.375 .. 1.375\<close> hours and
  \<open>-74.9 .. -70.4\<close> degrees.
\<close>

theorem out_of_range_iff_outside_bounds:
  assumes "normalize_galaxy g = Some G"
    and "is_float_or_int ra" and "is_float_or_int dec"
    and "num_of ra = Some x" and "num_of dec = Some y"
    and "\<not> unit_mismatch G x"
  shows "(\<exists>c. fst (get_extinction w (PyStr g) ra dec radius teff trace)
                = Inl (CoordinateOutOfRange c))
         \<longleftrightarrow> \<not> in_bounds G x y"
proof (cases "in_bounds G x y")
  case True
  then have "select_endpoint (pyupper g) ra dec = Inr (endpoint G)"
    using assms by (simp add: select_endpoint_spec [OF assms(4) assms(5)] in_bounds_def)
  from validate_no_range_error [OF this] True show ?thesis by simp
next
  case False
  then have "select_endpoint (pyupper g) ra dec = Inl (CoordinateOutOfRange RA)
           \<or> select_endpoint (pyupper g) ra dec = Inl (CoordinateOutOfRange Dec)"
    using assms by (simp add: select_endpoint_spec [OF assms(4) assms(5)] in_bounds_def)
  then have "validate (PyStr g) ra dec radius teff = Inl (CoordinateOutOfRange RA)
           \<or> validate (PyStr g) ra dec radius teff = Inl (CoordinateOutOfRange Dec)"
    using assms(2,3) by (auto simp: validate_def)
  then have "\<exists>c. fst (get_extinction w (PyStr g) ra dec radius teff trace)
                = Inl (CoordinateOutOfRange c)"
    by (auto simp: get_extinction_invalid)
  with False show ?thesis by simp
qed

text \<open>C6, witness: SMC with \<open>dec = -80.0\<close> fails with \<open>CoordinateOutOfRange\<close>.\<close>

theorem out_of_range_iff_outside_bounds_witness:
  "normalize_galaxy ''SMC'' = Some SMC
   \<and> is_float_or_int (PyFloat (Fin 0.75)) \<and> is_float_or_int (PyFloat (Fin (- 80.0)))
   \<and> num_of (PyFloat (Fin 0.75)) = Some (Fin 0.75)
   \<and> num_of (PyFloat (Fin (- 80.0))) = Some (Fin (- 80.0))
   \<and> \<not> unit_mismatch SMC (Fin 0.75)
   \<and> \<not> in_bounds SMC (Fin 0.75) (Fin (- 80.0))
   \<and> (\<exists>c. fst (get_extinction (mock_env '''') (PyStr ''SMC'') (PyFloat (Fin 0.75))
                 (PyFloat (Fin (- 80.0))) (PyInt 5) (PyStr ''all'') [])
            = Inl (CoordinateOutOfRange c))"
proof -
  have a: "normalize_galaxy ''SMC'' = Some SMC" by code_simp
  have b: "is_float_or_int (PyFloat (Fin 0.75))"
    and c: "is_float_or_int (PyFloat (Fin (- 80.0)))" by simp_all
  have d: "num_of (PyFloat (Fin 0.75)) = Some (Fin 0.75)"
    and e: "num_of (PyFloat (Fin (- 80.0))) = Some (Fin (- 80.0))" by simp_all
  have f: "\<not> unit_mismatch SMC (Fin 0.75)" by (simp add: unit_mismatch_def)
  have g: "\<not> in_bounds SMC (Fin 0.75) (Fin (- 80.0))"
    by (simp add: in_bounds_def ra_in_bounds_def dec_in_bounds_def)
  from out_of_range_iff_outside_bounds [OF a b c d e f] a b c d e f g show ?thesis by blast
qed

subsection \<open>C7: the radius\<close>

text \<open>
  C7: with a galaxy, \<open>ra\<close> and \<open>dec\<close> that pass their checks and a numeric radius,
  \<open>get_extinction\<close> fails with \<open>InvalidRadius\<close> exactly when \<open>0 < radius \<le> 12\<close> does
  not hold. The radii \<open>0\<close> and \<open>12.01\<close> violate the condition and \<open>12.0\<close> meets it.
  (A radius that is not a number, a string say, raises Python's \<open>TypeError\<close> in the
  comparison on line 64.)
\<close>

theorem invalid_radius_iff_out_of_range:
  assumes "select_endpoint (pyupper g) ra dec = Inr base_url"
    and "is_float_or_int ra" and "is_float_or_int dec" and "num_of radius = Some r"
  shows "(fst (get_extinction w (PyStr g) ra dec radius teff trace) = Inl InvalidRadius
            \<longleftrightarrow> \<not> (flt (Fin 0) r \<and> fle r (Fin 12)))
       \<and> \<not> (flt (Fin 0) (Fin 0) \<and> fle (Fin 0) (Fin 12))
       \<and> \<not> (flt (Fin 0) (Fin 12.01) \<and> fle (Fin 12.01) (Fin 12))
       \<and> (flt (Fin 0) (Fin 12.0) \<and> fle (Fin 12.0) (Fin 12))"
proof -
  have v: "validate (PyStr g) ra dec radius teff =
           (if \<not> radius_ok r then Inl InvalidRadius
            else if \<not> teff_ok teff then Inl InvalidTeff
            else Inr base_url)"
    by (rule validate_radius [OF assms])
  have "fst (get_extinction w (PyStr g) ra dec radius teff trace) = Inl InvalidRadius
          \<longleftrightarrow> \<not> radius_ok r"
  proof (cases "radius_ok r")
    case False
    with v have "validate (PyStr g) ra dec radius teff = Inl InvalidRadius" by simp
    then show ?thesis using False by (simp add: get_extinction_invalid)
  next
    case True
    show ?thesis
    proof (cases "teff_ok teff")
      case False
      with v True have "validate (PyStr g) ra dec radius teff = Inl InvalidTeff" by simp
      then show ?thesis using True by (simp add: get_extinction_invalid)
    next
      case ok: True
      with v True have "validate (PyStr g) ra dec radius teff = Inr base_url" by simp
      from get_extinction_outcomes [OF this, of w trace] True show ?thesis by auto
    qed
  qed
  then show ?thesis by (simp add: radius_ok_def)
qed

text \<open>C7, witness: LMC at \<open>ra = 5.2\<close>, \<open>dec = -69.5\<close> with the radius \<open>12.01\<close>.\<close>

theorem invalid_radius_iff_out_of_range_witness:
  "select_endpoint (pyupper ''LMC'') (PyFloat (Fin 5.2)) (PyFloat (Fin (- 69.5))) = Inr lmc_url
   \<and> is_float_or_int (PyFloat (Fin 5.2)) \<and> is_float_or_int (PyFloat (Fin (- 69.5)))
   \<and> num_of (PyFloat (Fin 12.01)) = Some (Fin 12.01)
   \<and> fst (get_extinction (mock_env '''') (PyStr ''LMC'') (PyFloat (Fin 5.2))
            (PyFloat (Fin (- 69.5))) (PyFloat (Fin 12.01)) (PyStr ''all'') [])
       = Inl InvalidRadius"
proof -
  have a: "select_endpoint (pyupper ''LMC'') (PyFloat (Fin 5.2)) (PyFloat (Fin (- 69.5)))
             = Inr lmc_url" by code_simp
  have b: "is_float_or_int (PyFloat (Fin 5.2))"
    and c: "is_float_or_int (PyFloat (Fin (- 69.5)))" by simp_all
  have d: "num_of (PyFloat (Fin 12.01)) = Some (Fin 12.01)" by simp
  have e: "\<not> (flt (Fin 0) (Fin 12.01) \<and> fle (Fin 12.01) (Fin 12))" by simp
  from invalid_radius_iff_out_of_range [OF a b c d, of "mock_env ''''" "PyStr ''all''" "[]"] a b c d e
  show ?thesis by blast
qed

subsection \<open>C8: the request\<close>

text \<open>
  C8: when every validation check passes, \<open>get_extinction\<close> sends exactly one request,
  to the endpoint of the galaxy with the parameters \<open>ra\<close>, \<open>dec\<close>,
  \<open>searchrad = radius\<close> and \<open>teff\<close>; when a check fails, that error is raised and no
  request is sent. In particular a \<open>ra\<close> or \<open>dec\<close> that is not of type float or int
  fails with \<open>InvalidCoordinateType\<close> and no request is sent.
\<close>

theorem one_request_after_validation:
  "(\<forall>base_url. validate galaxy ra dec radius teff = Inr base_url \<longrightarrow>
      snd (get_extinction w galaxy ra dec radius teff trace)
        = trace @ [\<lparr>url = base_url,
                     params = [(''ra'', ra), (''dec'', dec),
                               (''searchrad'', radius), (''teff'', teff)]\<rparr>]
      \<and> (\<exists>g G. galaxy = PyStr g \<and> normalize_galaxy g = Some G \<and> base_url = endpoint G))
   \<and> (\<forall>e. validate galaxy ra dec radius teff = Inl e \<longrightarrow>
          get_extinction w galaxy ra dec radius teff trace = (Inl e, trace))
   \<and> (\<forall>g. galaxy = PyStr g \<and> (\<not> is_float_or_int ra \<or> \<not> is_float_or_int dec) \<longrightarrow>
          (\<exists>c. get_extinction w galaxy ra dec radius teff trace
                 = (Inl (InvalidCoordinateType c), trace)))"
proof -
  have 1: "\<forall>base_url. validate galaxy ra dec radius teff = Inr base_url \<longrightarrow>
      snd (get_extinction w galaxy ra dec radius teff trace)
        = trace @ [\<lparr>url = base_url,
                     params = [(''ra'', ra), (''dec'', dec),
                               (''searchrad'', radius), (''teff'', teff)]\<rparr>]
      \<and> (\<exists>g G. galaxy = PyStr g \<and> normalize_galaxy g = Some G \<and> base_url = endpoint G)"
    using get_extinction_trace [of galaxy ra dec radius teff _ w trace]
      validate_Inr [of galaxy ra dec radius teff]
    by (simp add: make_request_def)
  have 2: "\<forall>e. validate galaxy ra dec radius teff = Inl e \<longrightarrow>
          get_extinction w galaxy ra dec radius teff trace = (Inl e, trace)"
    by (simp add: get_extinction_invalid)
  have 3: "\<forall>g. galaxy = PyStr g \<and> (\<not> is_float_or_int ra \<or> \<not> is_float_or_int dec) \<longrightarrow>
          (\<exists>c. get_extinction w galaxy ra dec radius teff trace
                 = (Inl (InvalidCoordinateType c), trace))"
  proof (intro allI impI)
    fix g
    assume h: "galaxy = PyStr g \<and> (\<not> is_float_or_int ra \<or> \<not> is_float_or_int dec)"
    with validate_types [of ra dec g radius teff]
    have "validate galaxy ra dec radius teff = Inl (InvalidCoordinateType RA)
        \<or> validate galaxy ra dec radius teff = Inl (InvalidCoordinateType Dec)"
      by blast
    then show "\<exists>c. get_extinction w galaxy ra dec radius teff trace
                 = (Inl (InvalidCoordinateType c), trace)"
      using get_extinction_invalid [of galaxy ra dec radius teff _ w trace] by blast
  qed
  from 1 2 3 show ?thesis by blast
qed

text \<open>
  C8, witness: a valid SMC query sends one request; the same query with the right
  ascension as a string sends none.
\<close>

theorem one_request_after_validation_witness:
  "validate (PyStr ''smc'') (PyFloat (Fin 0.75)) (PyFloat (Fin (- 72.5))) (PyInt 10) (PyStr ''hot'')
     = Inr smc_url
   \<and> snd (get_extinction (mock_env '''') (PyStr ''smc'') (PyFloat (Fin 0.75))
            (PyFloat (Fin (- 72.5))) (PyInt 10) (PyStr ''hot'') [])
       = [\<lparr>url = smc_url,
            params = [(''ra'', PyFloat (Fin 0.75)), (''dec'', PyFloat (Fin (- 72.5))),
                      (''searchrad'', PyInt 10), (''teff'', PyStr ''hot'')]\<rparr>]
   \<and> validate (PyStr ''smc'') (PyStr ''00:45:00'') (PyFloat (Fin (- 72.5))) (PyInt 10) (PyStr ''hot'')
       = Inl (InvalidCoordinateType RA)
   \<and> get_extinction (mock_env '''') (PyStr ''smc'') (PyStr ''00:45:00'')
          (PyFloat (Fin (- 72.5))) (PyInt 10) (PyStr ''hot'') []
       = (Inl (InvalidCoordinateType RA), [])"
proof -
  have a: "validate (PyStr ''smc'') (PyFloat (Fin 0.75)) (PyFloat (Fin (- 72.5))) (PyInt 10)
             (PyStr ''hot'') = Inr smc_url"
    by code_simp
  have b: "validate (PyStr ''smc'') (PyStr ''00:45:00'') (PyFloat (Fin (- 72.5))) (PyInt 10)
             (PyStr ''hot'') = Inl (InvalidCoordinateType RA)"
    by code_simp
  from one_request_after_validation [of "PyStr ''smc''" "PyFloat (Fin 0.75)" "PyFloat (Fin (- 72.5))" "PyInt 10"
      "PyStr ''hot''" "mock_env ''''" "[]"] a
  have c: "snd (get_extinction (mock_env '''') (PyStr ''smc'') (PyFloat (Fin 0.75))
            (PyFloat (Fin (- 72.5))) (PyInt 10) (PyStr ''hot'') [])
       = [\<lparr>url = smc_url,
            params = [(''ra'', PyFloat (Fin 0.75)), (''dec'', PyFloat (Fin (- 72.5))),
                      (''searchrad'', PyInt 10), (''teff'', PyStr ''hot'')]\<rparr>]"
    by simp
  from one_request_after_validation [of "PyStr ''smc''" "PyStr ''00:45:00''" "PyFloat (Fin (- 72.5))" "PyInt 10"
      "PyStr ''hot''" "mock_env ''''" "[]"] b
  have d: "get_extinction (mock_env '''') (PyStr ''smc'') (PyStr ''00:45:00'')
          (PyFloat (Fin (- 72.5))) (PyInt 10) (PyStr ''hot'') []
       = (Inl (InvalidCoordinateType RA), [])"
    by simp
  from a b c d show ?thesis by blast
qed

subsection \<open>C9: the order of the checks\<close>

text \<open>
  C9: the checks run in the order ra is numeric, dec is numeric, galaxy is LMC or SMC,
  ra unit mismatch, ra bounds, dec bounds, radius range, teff membership:
  \<open>violations\<close> lists the errors of the violated checks in this order, and the error
  raised is the first of the list; with no violation, validation passes. In
  particular a non-numeric \<open>ra\<close> together with an unrecognised galaxy fails with the
  coordinate-type error. (The galaxy is a string and the radius a number.)
\<close>

theorem first_violated_check_is_raised:
  assumes "num_of radius = Some r"
  shows "(violations g ra dec r teff = [] \<longrightarrow>
            (\<exists>G. normalize_galaxy g = Some G
                 \<and> validate (PyStr g) ra dec radius teff = Inr (endpoint G)))
       \<and> (\<forall>e es. violations g ra dec r teff = e # es \<longrightarrow>
            get_extinction w (PyStr g) ra dec radius teff trace = (Inl e, trace))
       \<and> (\<not> is_float_or_int ra \<and> normalize_galaxy g = None \<longrightarrow>
            get_extinction w (PyStr g) ra dec radius teff trace
              = (Inl (InvalidCoordinateType RA), trace))"
proof -
  note v = violations_first [OF assms, of g ra dec teff]
  have 1: "violations g ra dec r teff = [] \<longrightarrow>
            (\<exists>G. normalize_galaxy g = Some G
                 \<and> validate (PyStr g) ra dec radius teff = Inr (endpoint G))"
    using v by blast
  have 2: "\<forall>e es. violations g ra dec r teff = e # es \<longrightarrow>
            get_extinction w (PyStr g) ra dec radius teff trace = (Inl e, trace)"
    using v get_extinction_invalid [of "PyStr g" ra dec radius teff _ w trace] by blast
  have 3: "\<not> is_float_or_int ra \<and> normalize_galaxy g = None \<longrightarrow>
            get_extinction w (PyStr g) ra dec radius teff trace
              = (Inl (InvalidCoordinateType RA), trace)"
    by (simp add: get_extinction_invalid validate_def)
  from 1 2 3 show ?thesis by blast
qed

text \<open>
  C9, witness: two inputs that violate four checks each; the error raised is the first
  in the order.
\<close>

theorem first_violated_check_is_raised_witness:
  "num_of (PyInt 20) = Some (Fin 20)
   \<and> violations ''M31'' (PyStr ''04:30:00'') (PyFloat (Fin (- 100))) (Fin 20) (PyStr ''warm'')
       = [InvalidCoordinateType RA, InvalidGalaxy, InvalidRadius, InvalidTeff]
   \<and> get_extinction (mock_env '''') (PyStr ''M31'') (PyStr ''04:30:00'') (PyFloat (Fin (- 100)))
        (PyInt 20) (PyStr ''warm'') []
       = (Inl (InvalidCoordinateType RA), [])
   \<and> violations ''lmc'' (PyFloat (Fin 3)) (PyFloat (Fin (- 100))) (Fin 20) (PyStr ''warm'')
       = [CoordinateOutOfRange RA, CoordinateOutOfRange Dec, InvalidRadius, InvalidTeff]
   \<and> get_extinction (mock_env '''') (PyStr ''lmc'') (PyFloat (Fin 3)) (PyFloat (Fin (- 100)))
        (PyInt 20) (PyStr ''warm'') []
       = (Inl (CoordinateOutOfRange RA), [])"
proof -
  have a: "num_of (PyInt 20) = Some (Fin 20)" by simp
  have b: "violations ''M31'' (PyStr ''04:30:00'') (PyFloat (Fin (- 100))) (Fin 20) (PyStr ''warm'')
       = [InvalidCoordinateType RA, InvalidGalaxy, InvalidRadius, InvalidTeff]"
    by code_simp
  have c: "violations ''lmc'' (PyFloat (Fin 3)) (PyFloat (Fin (- 100))) (Fin 20) (PyStr ''warm'')
       = [CoordinateOutOfRange RA, CoordinateOutOfRange Dec, InvalidRadius, InvalidTeff]"
    by code_simp
  from first_violated_check_is_raised [OF a, of "''M31''" "PyStr ''04:30:00''" "PyFloat (Fin (- 100))" "PyStr ''warm''"
      "mock_env ''''" "[]"] b
  have d: "get_extinction (mock_env '''') (PyStr ''M31'') (PyStr ''04:30:00'')
        (PyFloat (Fin (- 100))) (PyInt 20) (PyStr ''warm'') []
       = (Inl (InvalidCoordinateType RA), [])"
    by blast
  from first_violated_check_is_raised [OF a, of "''lmc''" "PyFloat (Fin 3)" "PyFloat (Fin (- 100))" "PyStr ''warm''"
      "mock_env ''''" "[]"] c
  have e: "get_extinction (mock_env '''') (PyStr ''lmc'') (PyFloat (Fin 3))
        (PyFloat (Fin (- 100))) (PyInt 20) (PyStr ''warm'') []
       = (Inl (CoordinateOutOfRange RA), [])"
    by blast
  from a b c d e show ?thesis by blast
qed

subsection \<open>C10: which token is parsed\<close>

text \<open>
  Claim C10 says that on a marker line the value is the first whitespace-delimited
  token after the first \<open>=\<close> of the line. The code takes \<open>line.split('=')[1]\<close>, the
  text between the first \<open>=\<close> and the next one, so the token also ends at the next
  \<open>=\<close>.

  C10, as amended: on a line containing a marker, the value extracted is the first
  whitespace-delimited token of the text between the FIRST \<open>=\<close> of the line and the
  next \<open>=\<close> (or the end of the line), parsed as a number; this is not the marker's
  own \<open>=\<close> when the line has an earlier one. If that text has no token or the token
  is not a number, the extraction fails (and the line is skipped).
\<close>

theorem value_is_token_between_first_two_equals:
  assumes "pycontains mean_marker line \<or> pycontains stdev_marker line"
  shows "extract_value line =
           (case pysplit_ws (takeWhile (\<lambda>c. c \<noteq> CHR ''='') (after_first_eq line)) of
              [] \<Rightarrow> Inl IndexError
            | tok # rest \<Rightarrow> pyfloat_of_str tok)
       \<and> (isl (extract_value line) \<longrightarrow>
            (\<forall>st raw. pystrip raw = line \<longrightarrow> scan_line st raw = st))"
proof -
  have "pyindex (pysplit CHR ''='' line) 1 =
          Inr (takeWhile (\<lambda>c. c \<noteq> CHR ''='') (after_first_eq line))"
    unfolding after_first_eq_def by (rule pysplit_second [OF marker_has_eq [OF assms]])
  then have 1: "extract_value line =
           (case pysplit_ws (takeWhile (\<lambda>c. c \<noteq> CHR ''='') (after_first_eq line)) of
              [] \<Rightarrow> Inl IndexError
            | tok # rest \<Rightarrow> pyfloat_of_str tok)"
    by (cases "pysplit_ws (takeWhile (\<lambda>c. c \<noteq> CHR ''='') (after_first_eq line))")
       (simp_all add: extract_value_def)
  have 2: "isl (extract_value line) \<longrightarrow>
            (\<forall>st raw. pystrip raw = line \<longrightarrow> scan_line st raw = st)"
    by (auto simp: scan_line_def Let_def split: sum.splits)
  from 1 2 show ?thesis by blast
qed

text \<open>
  C10, witness: on the line \<open>region = 7 <Av> = 0.45\<close> the value extracted is \<open>7\<close>, the
  token after the earlier \<open>=\<close>.
\<close>

theorem value_is_token_between_first_two_equals_witness:
  "pycontains mean_marker ''region = 7 <Av> = 0.45''
   \<and> after_first_eq ''region = 7 <Av> = 0.45'' = '' 7 <Av> = 0.45''
   \<and> pysplit_ws (takeWhile (\<lambda>c. c \<noteq> CHR ''='') '' 7 <Av> = 0.45'') = [''7'', ''<Av>'']
   \<and> extract_value ''region = 7 <Av> = 0.45'' = Inr (Fin 7)"
proof -
  have a: "pycontains mean_marker ''region = 7 <Av> = 0.45''" by code_simp
  have b: "after_first_eq ''region = 7 <Av> = 0.45'' = '' 7 <Av> = 0.45''" by code_simp
  have c: "pysplit_ws (takeWhile (\<lambda>c. c \<noteq> CHR ''='') '' 7 <Av> = 0.45'') = [''7'', ''<Av>'']"
    by code_simp
  have d: "pyfloat_of_str ''7'' = Inr (Fin 7)" by code_simp
  from a have a': "pycontains mean_marker ''region = 7 <Av> = 0.45''
      \<or> pycontains stdev_marker ''region = 7 <Av> = 0.45''" by (rule disjI1)
  have "extract_value ''region = 7 <Av> = 0.45'' = Inr (Fin 7)"
    using value_is_token_between_first_two_equals [OF a', THEN conjunct1]
    by (simp only: b c d list.case)
  with a b c show ?thesis by blast
qed

text \<open>
  C10, counterexample to the claim as stated: on the line \<open>n=3=<Av> = 0.45\<close> the first
  whitespace-delimited token after the first \<open>=\<close> is \<open>3=<Av>\<close>, which is not a
  number; the code extracts \<open>3\<close>.
\<close>

theorem token_is_cut_at_second_equals:
  "pycontains mean_marker ''n=3=<Av> = 0.45''
   \<and> first_token (after_first_eq ''n=3=<Av> = 0.45'') = Inr ''3=<Av>''
   \<and> pyfloat_of_str ''3=<Av>'' = Inl FloatValueError
   \<and> extract_value ''n=3=<Av> = 0.45'' = Inr (Fin 3)"
  by code_simp

end
